theory Spec2Isabelle
  imports Complex_Main "HOL-Library.Signed_Division" "HOL-Library.Sublist"
begin

section \<open>Point location in a mesh: \<open>locate_cell\<close> of \<open>firedrake/locate.c\<close>\<close>

text \<open>
  \<open>locate_cell\<close> looks for the mesh cell that contains a point \<open>x\<close>. It walks over
  candidate cells (those an R-tree reports, or all of them), asks a callback for the
  point's reference coordinates in the candidate and its L1 distance to the reference
  cell, and keeps the first candidate with distance \<open>\<le> 0\<close>, or else the closest one
  seen so far if it is under the tolerance.

  Conventions of the embedding:
  \<^item> A C \<open>int\<close> is 32 bits wide, and its values are the integers from \<open>-2^31\<close> to
    \<open>INT_MAX = 2^31 - 1\<close>. The sum and the product of line 145 wrap around modulo \<open>2^32\<close>,
    as the compiled code computes them (\<open>int32\<close>). \<open>ids[i] - 1\<close> is exact on the ids of a
    1-based index. Division truncates towards zero (\<open>sdiv\<close>, \<open>smod\<close>), and a zero
    divisor is a fault of the run.
  \<^item> C's \<open>double\<close> values are reals: the function only compares distances (with \<open>0.0\<close>,
    with each other, with \<open>tolerance\<close> and with \<open>DBL_MAX\<close>), and the order of finite
    doubles is the order of the reals they denote. NaN and infinities are not modelled.
  \<^item> A containment test is a function of the mesh, the candidate and the point that
    yields the contents it writes to the scratch buffer together with the distance it
    returns.
  \<^item> The reference coordinates are an opaque type \<open>'rc\<close>: the function only copies them.
    The scratch buffer and the output buffer are distinct.
  \<^item> \<open>malloc\<close> succeeds, and the number of ids the R-tree reports is not negative.
\<close>

subsection \<open>Data\<close>

type_synonym point = "real list"

text \<open>
  \<open>struct Function\<close> (declared in \<open>evaluate.h\<close>), restricted to the fields \<open>locate_cell\<close>
  reads. \<open>sidx2\<close> is the R-tree handle: \<open>None\<close> is the null pointer, and an R-tree is
  represented by what \<open>libsupermesh_query_rtree\<close> followed by
  \<open>libsupermesh_query_rtree_intersections\<close> deliver for a dimension and a point: the
  list of ids, \<open>nids\<close> being its length.
\<close>

record Function =
  sidx2 :: "(int \<Rightarrow> point \<Rightarrow> int list) option"
  extruded :: int
  n_cols :: int
  n_layers :: int

text \<open>The enumeration \<open>RTError\<close> of libspatialindex's C API (\<open>sidx_api.h\<close>).\<close>

datatype RTError = RT_None | RT_Debug | RT_Warning | RT_Failure | RT_Fatal

text \<open>A candidate as handed to a containment test: a cell, or a column and a layer.\<close>

datatype cand = Flat int | Xtr int int

type_synonym 'rc ref_cell_l1_dist = "Function \<Rightarrow> int \<Rightarrow> point \<Rightarrow> 'rc \<times> real"
type_synonym 'rc ref_cell_l1_dist_xtr = "Function \<Rightarrow> int \<Rightarrow> int \<Rightarrow> point \<Rightarrow> 'rc \<times> real"

datatype fault = DivisionByZero

datatype buffer_status = Unallocated | Live | Released

datatype flow = Continue | Break

text \<open>
  The state \<open>locate_cell\<close> works on. \<open>cell\<close>, \<open>ref_cell_dist_l1\<close> and
  \<open>current_ref_cell_dist_l1\<close> are its locals; \<open>temp_ref_coords\<close>, \<open>found_ref_coords\<close> and
  \<open>found_ref_cell_dist_l1\<close> are the contents of the caller's buffers (the last one is
  \<open>found_ref_cell_dist_l1[0]\<close>); \<open>ids_buffer\<close> is the heap block \<open>ids\<close>; \<open>stderr\<close> collects
  what \<open>fputs\<close> writes; \<open>tested\<close> lists the calls of the containment tests, oldest first.
\<close>

record 'rc state =
  cell :: int
  ref_cell_dist_l1 :: real
  current_ref_cell_dist_l1 :: real
  temp_ref_coords :: 'rc
  found_ref_coords :: 'rc
  found_ref_cell_dist_l1 :: real
  ids_buffer :: buffer_status
  stderr :: "string list"
  tested :: "cand list"

definition DBL_MAX :: real where
  "DBL_MAX = (2 - 1 / 2 ^ 52) * 2 ^ 1023"

subsection \<open>The layered id codec\<close>

text \<open>Lines 75-77: \<open>c = ids[i] / nlayers; l = ids[i] % nlayers\<close>.\<close>

definition decode :: "int \<Rightarrow> int \<Rightarrow> fault + int \<times> int" where
  "decode i nlayers =
     (if nlayers = 0 then Inl DivisionByZero else Inr (i sdiv nlayers, i smod nlayers))"

text \<open>
  The value a 32-bit two's complement \<open>int\<close> holds for the mathematical result \<open>k\<close>.
\<close>

definition INT_MAX :: int where
  "INT_MAX = 2 ^ 31 - 1"

definition int32 :: "int \<Rightarrow> int" where
  "int32 k = (k + 2 ^ 31) mod 2 ^ 32 - 2 ^ 31"

text \<open>Line 145: \<open>cell = c * f->n_layers + cell\<close>, in \<open>int\<close> arithmetic.\<close>

definition encode :: "int \<Rightarrow> int \<Rightarrow> int \<Rightarrow> int" where
  "encode c l nlayers = int32 (int32 (c * nlayers) + l)"

subsection \<open>The loop body\<close>

text \<open>
  The four loops share one body (lines 53-70, 78-95, 102-119 and 125-142); they differ
  in the candidate \<open>a\<close> handed to the test and in the id \<open>cid\<close> stored in \<open>cell\<close>.
  \<open>test a\<close> is the call of the containment test.
\<close>

definition accept :: "int \<Rightarrow> real \<Rightarrow> 'rc state \<Rightarrow> 'rc state" where
  "accept cid d s =
     s\<lparr>cell := cid, found_ref_coords := temp_ref_coords s, found_ref_cell_dist_l1 := d\<rparr>"

definition try_cell ::
  "real \<Rightarrow> (cand \<Rightarrow> 'rc \<times> real) \<Rightarrow> cand \<Rightarrow> int \<Rightarrow> 'rc state \<Rightarrow> flow \<times> 'rc state" where
  "try_cell tolerance test a cid s =
     (let s1 = s\<lparr>temp_ref_coords := fst (test a),
                 current_ref_cell_dist_l1 := snd (test a),
                 tested := tested s @ [a]\<rparr>
      in if current_ref_cell_dist_l1 s1 \<le> 0
         then (Break, accept cid (current_ref_cell_dist_l1 s1) s1)
         else if current_ref_cell_dist_l1 s1 < ref_cell_dist_l1 s1
         then (let s2 = s1\<lparr>ref_cell_dist_l1 := current_ref_cell_dist_l1 s1\<rparr>
               in if ref_cell_dist_l1 s2 < tolerance
                  then (Continue, accept cid (ref_cell_dist_l1 s2) s2)
                  else (Continue, s2))
         else (Continue, s1))"

subsection \<open>The loops\<close>

text \<open>
  A \<open>for\<close> loop over candidates, each paired with the id to store on acceptance;
  \<open>break\<close> ends it.
\<close>

fun search_loop ::
  "real \<Rightarrow> (cand \<Rightarrow> 'rc \<times> real) \<Rightarrow> (cand \<times> int) list \<Rightarrow> 'rc state \<Rightarrow> 'rc state" where
  "search_loop tolerance test [] s = s"
| "search_loop tolerance test ((a, cid) # rest) s =
     (case try_cell tolerance test a cid s of
        (Break, s') \<Rightarrow> s'
      | (Continue, s') \<Rightarrow> search_loop tolerance test rest s')"

text \<open>Lines 51-71: \<open>candidate = ids[i] - 1\<close> is tested and stored.\<close>

definition sidx_flat_candidates :: "int list \<Rightarrow> (cand \<times> int) list" where
  "sidx_flat_candidates ids = map (\<lambda>i. (Flat (i - 1), i - 1)) ids"

text \<open>
  Lines 74-96: each id is decoded, the pair is tested, and the id itself is stored.
\<close>

fun loop_sidx_xtr ::
  "real \<Rightarrow> (cand \<Rightarrow> 'rc \<times> real) \<Rightarrow> int \<Rightarrow> int list \<Rightarrow> 'rc state \<Rightarrow> fault + 'rc state" where
  "loop_sidx_xtr tolerance test nlayers [] s = Inr s"
| "loop_sidx_xtr tolerance test nlayers (i # ids) s =
     (case decode i nlayers of
        Inl e \<Rightarrow> Inl e
      | Inr (c, l) \<Rightarrow>
          (case try_cell tolerance test (Xtr c l) i s of
             (Break, s') \<Rightarrow> Inr s'
           | (Continue, s') \<Rightarrow> loop_sidx_xtr tolerance test nlayers ids s'))"

text \<open>Lines 101-120: the cells \<open>0, ..., n_cols - 1\<close>.\<close>

definition flat_candidates :: "int \<Rightarrow> (cand \<times> int) list" where
  "flat_candidates ncols = map (\<lambda>c. (Flat c, c)) [0..ncols - 1]"

text \<open>Lines 124-143: the layers \<open>0, ..., n_layers - 1\<close> of column \<open>c\<close>; the layer is stored.\<close>

definition column_candidates :: "int \<Rightarrow> int \<Rightarrow> (cand \<times> int) list" where
  "column_candidates nlayers c = map (\<lambda>l. (Xtr c l, l)) [0..nlayers - 1]"

text \<open>
  Lines 123-148: the outer loop over the columns. After the layers of a column, a
  \<open>cell\<close> other than \<open>-1\<close> is turned into the id of the cell and ends the loop.
\<close>

fun loop_columns ::
  "real \<Rightarrow> (cand \<Rightarrow> 'rc \<times> real) \<Rightarrow> int \<Rightarrow> int list \<Rightarrow> 'rc state \<Rightarrow> 'rc state" where
  "loop_columns tolerance test nlayers [] s = s"
| "loop_columns tolerance test nlayers (c # cols) s =
     (let s' = search_loop tolerance test (column_candidates nlayers c) s
      in if cell s' \<noteq> - 1
         then s'\<lparr>cell := encode c (cell s') nlayers\<rparr>
         else loop_columns tolerance test nlayers cols s')"

subsection \<open>\<open>locate_cell\<close>\<close>

fun run_test ::
  "'rc ref_cell_l1_dist \<Rightarrow> 'rc ref_cell_l1_dist_xtr \<Rightarrow> Function \<Rightarrow> point \<Rightarrow> cand \<Rightarrow> 'rc \<times> real" where
  "run_test try_candidate try_candidate_xtr f x (Flat c) = try_candidate f c x"
| "run_test try_candidate try_candidate_xtr f x (Xtr c l) = try_candidate_xtr f c l x"

text \<open>Lines 18, 26 and 27: the initial values of the locals.\<close>

definition init_locals :: "'rc state \<Rightarrow> 'rc state" where
  "init_locals s0 =
     s0\<lparr>cell := - 1, ref_cell_dist_l1 := DBL_MAX, current_ref_cell_dist_l1 := - 0.5\<rparr>"

definition index_error_message :: string where
  "index_error_message = ''ERROR: Index_Intersects_id failed in libspatialindex!''"

text \<open>
  The body of \<open>locate_cell\<close> from line 18 on, for the value \<open>err\<close> of the local of that name
  as line 46 finds it. \<open>tolerance\<close> is the static variable of the surrounding code.
  The result is the returned \<open>int\<close> and the final state.
\<close>

definition locate_cell_body ::
  "RTError \<Rightarrow> Function \<Rightarrow> point \<Rightarrow> int \<Rightarrow> 'rc ref_cell_l1_dist \<Rightarrow> 'rc ref_cell_l1_dist_xtr \<Rightarrow>
   real \<Rightarrow> 'rc state \<Rightarrow> fault + int \<times> 'rc state" where
  "locate_cell_body err f x dimn try_candidate try_candidate_xtr tolerance s0 =
     (let test = run_test try_candidate try_candidate_xtr f x;
          s = init_locals s0
      in case sidx2 f of
           Some rtree \<Rightarrow>
             (let ids = rtree dimn x;
                  s1 = s\<lparr>ids_buffer := Live\<rparr>
              in if err \<noteq> RT_None
                 then Inr (- 1, s1\<lparr>stderr := stderr s1 @ [index_error_message]\<rparr>)
                 else if extruded f = 0
                 then (let s2 = search_loop tolerance test (sidx_flat_candidates ids) s1
                       in Inr (cell s2, s2\<lparr>ids_buffer := Released\<rparr>))
                 else (case loop_sidx_xtr tolerance test (n_layers f) ids s1 of
                         Inl e \<Rightarrow> Inl e
                       | Inr s2 \<Rightarrow> Inr (cell s2, s2\<lparr>ids_buffer := Released\<rparr>)))
         | None \<Rightarrow>
             (if extruded f = 0
              then (let s2 = search_loop tolerance test (flat_candidates (n_cols f)) s
                    in Inr (cell s2, s2))
              else (let s2 = loop_columns tolerance test (n_layers f) [0..n_cols f - 1] s
                    in Inr (cell s2, s2))))"

text \<open>
  Line 17 sets \<open>err = RT_None\<close>, and nothing between it and line 46 assigns \<open>err\<close>: the two
  libsupermesh calls return nothing.
\<close>

definition locate_cell ::
  "Function \<Rightarrow> point \<Rightarrow> int \<Rightarrow> 'rc ref_cell_l1_dist \<Rightarrow> 'rc ref_cell_l1_dist_xtr \<Rightarrow>
   real \<Rightarrow> 'rc state \<Rightarrow> fault + int \<times> 'rc state" where
  "locate_cell = locate_cell_body RT_None"

subsection \<open>The candidates of a search\<close>

text \<open>
  The candidates of a search in the order of iteration, each with the id the function
  returns if it ends with that candidate accepted. There is none when decoding faults.
\<close>

definition sidx_xtr_candidates :: "int \<Rightarrow> int list \<Rightarrow> (cand \<times> int) list" where
  "sidx_xtr_candidates nlayers ids = map (\<lambda>i. (Xtr (i sdiv nlayers) (i smod nlayers), i)) ids"

definition xtr_candidates :: "int \<Rightarrow> int \<Rightarrow> (cand \<times> int) list" where
  "xtr_candidates ncols nlayers =
     concat (map (\<lambda>c. map (\<lambda>l. (Xtr c l, encode c l nlayers)) [0..nlayers - 1]) [0..ncols - 1])"

definition candidates :: "Function \<Rightarrow> int \<Rightarrow> point \<Rightarrow> fault + (cand \<times> int) list" where
  "candidates f dimn x =
     (case sidx2 f of
        Some rtree \<Rightarrow>
          (if extruded f = 0 then Inr (sidx_flat_candidates (rtree dimn x))
           else if n_layers f = 0 \<and> rtree dimn x \<noteq> [] then Inl DivisionByZero
           else Inr (sidx_xtr_candidates (n_layers f) (rtree dimn x)))
      | None \<Rightarrow>
          (if extruded f = 0 then Inr (flat_candidates (n_cols f))
           else Inr (xtr_candidates (n_cols f) (n_layers f))))"

subsection \<open>Example meshes and containment tests\<close>

text \<open>
  Small searches to evaluate the definitions on. A mesh with no R-tree, one with an
  R-tree that answers every query with the same ids, and containment tests given by a
  table of distances; they write the candidate into the scratch buffer.
\<close>

definition exhaustive_mesh :: "int \<Rightarrow> int \<Rightarrow> int \<Rightarrow> Function" where
  "exhaustive_mesh xtr ncols nlayers =
     \<lparr>sidx2 = None, extruded = xtr, n_cols = ncols, n_layers = nlayers\<rparr>"

definition indexed_mesh :: "int list \<Rightarrow> int \<Rightarrow> int \<Rightarrow> int \<Rightarrow> Function" where
  "indexed_mesh ids xtr ncols nlayers =
     \<lparr>sidx2 = Some (\<lambda>d x. ids), extruded = xtr, n_cols = ncols, n_layers = nlayers\<rparr>"

definition table_test :: "(int \<Rightarrow> real) \<Rightarrow> int list ref_cell_l1_dist" where
  "table_test d f c x = ([c], d c)"

definition table_test_xtr :: "(int \<Rightarrow> int \<Rightarrow> real) \<Rightarrow> int list ref_cell_l1_dist_xtr" where
  "table_test_xtr d f c l x = ([c, l], d c l)"

definition example_state :: "int list state" where
  "example_state =
     \<lparr>cell = 0, ref_cell_dist_l1 = 0, current_ref_cell_dist_l1 = 0, temp_ref_coords = [],
      found_ref_coords = [], found_ref_cell_dist_l1 = 0, ids_buffer = Unallocated,
      stderr = [], tested = []\<rparr>"

section \<open>The codec\<close>

lemma sdiv_nonneg_pos:
  fixes k n :: int
  assumes "0 \<le> k" and "0 < n"
  shows "k sdiv n = k div n"
proof (cases "k = 0")
  case True
  then show ?thesis by simp
next
  case False
  with assms have "sgn k = 1" and "sgn n = 1" and "\<bar>k\<bar> = k" and "\<bar>n\<bar> = n"
    by simp_all
  then show ?thesis by (simp add: signed_divide_int_def)
qed

lemma smod_nonneg_pos:
  fixes k n :: int
  assumes "0 \<le> k" and "0 < n"
  shows "k smod n = k mod n"
proof (cases "k = 0")
  case True
  then show ?thesis by (simp add: signed_modulo_int_def)
next
  case False
  with assms have "sgn k = 1" and "\<bar>k\<bar> = k" and "\<bar>n\<bar> = n"
    by simp_all
  then show ?thesis by (simp add: signed_modulo_int_def)
qed

lemma encode_nonneg:
  fixes c l n :: int
  assumes "0 \<le> c" and "0 \<le> l" and "l < n"
  shows "0 \<le> c * n + l"
proof -
  have "0 \<le> c * n" using assms by (intro mult_nonneg_nonneg) simp_all
  with assms show ?thesis by simp
qed

lemma sdiv_encode:
  fixes c l n :: int
  assumes "0 \<le> c" and "0 \<le> l" and "l < n"
  shows "(c * n + l) sdiv n = c"
proof -
  have "0 < n" using assms by simp
  then have "(c * n + l) sdiv n = (c * n + l) div n"
    using encode_nonneg [OF assms] by (simp add: sdiv_nonneg_pos)
  also have "\<dots> = c" using assms by simp
  finally show ?thesis .
qed

lemma smod_encode:
  fixes c l n :: int
  assumes "0 \<le> c" and "0 \<le> l" and "l < n"
  shows "(c * n + l) smod n = l"
proof -
  have "0 < n" using assms by simp
  then have "(c * n + l) smod n = (c * n + l) mod n"
    using encode_nonneg [OF assms] by (simp add: smod_nonneg_pos)
  also have "\<dots> = l" using assms by simp
  finally show ?thesis .
qed

lemma int32_in_range:
  assumes "- (2 ^ 31) \<le> k" and "k < 2 ^ 31"
  shows "int32 k = k"
proof -
  have "0 \<le> k + 2 ^ 31" and "k + 2 ^ 31 < 2 ^ 32" using assms by simp_all
  then have "(k + 2 ^ 31) mod 2 ^ 32 = k + 2 ^ 31" by (rule mod_pos_pos_trivial)
  then show ?thesis by (simp add: int32_def)
qed

text \<open>Where the id fits an \<open>int\<close>, line 145 computes it exactly.\<close>

lemma encode_exact:
  assumes "0 \<le> c" and "0 \<le> l" and "l < n" and "c * n + l \<le> INT_MAX"
  shows "encode c l n = c * n + l"
proof -
  have top: "c * n + l < 2 ^ 31" using assms(4) by (simp add: INT_MAX_def)
  have "0 \<le> c * n" using assms by (intro mult_nonneg_nonneg) simp_all
  moreover from this have "c * n < 2 ^ 31" using assms(2) top by simp
  ultimately have "int32 (c * n) = c * n" by (intro int32_in_range) simp_all
  moreover have "int32 (c * n + l) = c * n + l"
    using encode_nonneg [OF assms(1,2,3)] top by (intro int32_in_range) simp_all
  ultimately show ?thesis by (simp add: encode_def)
qed

text \<open>
  C5, amended. For a column in \<open>[0, columnCount)\<close> and a layer in \<open>[0, layerCount)\<close>
  whose id \<open>column * layerCount + layer\<close> is at most \<open>INT_MAX\<close>, decoding the id that line
  145 computes by the truncating division and remainder of lines 76-77 gives back the
  column and the layer.
\<close>

theorem decode_encode:
  assumes "0 \<le> column" and "column < columnCount"
    and "0 \<le> layer" and "layer < layerCount"
    and "column * layerCount + layer \<le> INT_MAX"
  shows "decode (encode column layer layerCount) layerCount = Inr (column, layer)"
  using assms by (simp add: encode_exact decode_def sdiv_encode smod_encode)

theorem decode_encode_witness:
  "(0::int) \<le> 1 \<and> (1::int) < 2 \<and> (0::int) \<le> 2 \<and> (2::int) < 3 \<and>
   (1::int) * 3 + 2 \<le> INT_MAX \<and> decode (encode 1 2 3) 3 = Inr (1, 2)"
  using decode_encode [of 1 2 2 3] by (simp add: INT_MAX_def)

text \<open>
  C5 as stated fails where the id does not fit an \<open>int\<close>: with three columns of \<open>2^30\<close>
  layers, column 2 and layer 0 are encoded as \<open>-2^31\<close>, which decodes to column \<open>-2\<close>.
\<close>

theorem decode_encode_overflow:
  "(0::int) \<le> 2 \<and> (2::int) < 3 \<and> (0::int) \<le> 0 \<and> (0::int) < 2 ^ 30 \<and>
   encode 2 0 (2 ^ 30) = - (2 ^ 31) \<and>
   decode (encode 2 0 (2 ^ 30)) (2 ^ 30) = Inr (- 2, 0) \<and>
   decode (encode 2 0 (2 ^ 30)) (2 ^ 30) \<noteq> Inr (2, 0)"
  by (simp add: encode_def int32_def decode_def signed_divide_int_def signed_modulo_int_def)

section \<open>The loop body and the loops\<close>

lemma try_cell_exact:
  assumes "snd (test a) \<le> 0"
  shows "try_cell tolerance test a cid s =
    (Break, s\<lparr>temp_ref_coords := fst (test a), current_ref_cell_dist_l1 := snd (test a),
              tested := tested s @ [a], cell := cid, found_ref_coords := fst (test a),
              found_ref_cell_dist_l1 := snd (test a)\<rparr>)"
  using assms by (simp add: try_cell_def accept_def Let_def)

lemma try_cell_accept:
  assumes "0 < snd (test a)" and "snd (test a) < ref_cell_dist_l1 s" and "snd (test a) < tolerance"
  shows "try_cell tolerance test a cid s =
    (Continue, s\<lparr>temp_ref_coords := fst (test a), current_ref_cell_dist_l1 := snd (test a),
              tested := tested s @ [a], ref_cell_dist_l1 := snd (test a), cell := cid,
              found_ref_coords := fst (test a), found_ref_cell_dist_l1 := snd (test a)\<rparr>)"
  using assms by (simp add: try_cell_def accept_def Let_def)

lemma try_cell_closer:
  assumes "0 < snd (test a)" and "snd (test a) < ref_cell_dist_l1 s" and "\<not> snd (test a) < tolerance"
  shows "try_cell tolerance test a cid s =
    (Continue, s\<lparr>temp_ref_coords := fst (test a), current_ref_cell_dist_l1 := snd (test a),
              tested := tested s @ [a], ref_cell_dist_l1 := snd (test a)\<rparr>)"
  using assms by (simp add: try_cell_def accept_def Let_def)

lemma try_cell_far:
  assumes "0 < snd (test a)" and "\<not> snd (test a) < ref_cell_dist_l1 s"
  shows "try_cell tolerance test a cid s =
    (Continue, s\<lparr>temp_ref_coords := fst (test a), current_ref_cell_dist_l1 := snd (test a),
              tested := tested s @ [a]\<rparr>)"
  using assms by (simp add: try_cell_def accept_def Let_def)

lemma try_cell_miss:
  assumes "0 < snd (test a)"
  shows "fst (try_cell tolerance test a cid s) = Continue \<and>
         tested (snd (try_cell tolerance test a cid s)) = tested s @ [a] \<and>
         ref_cell_dist_l1 (snd (try_cell tolerance test a cid s)) =
           min (ref_cell_dist_l1 s) (snd (test a))"
  using assms by (simp add: try_cell_def accept_def Let_def)

lemma try_cell_frame:
  "ids_buffer (snd (try_cell tolerance test a cid s)) = ids_buffer s \<and>
   stderr (snd (try_cell tolerance test a cid s)) = stderr s"
  by (simp add: try_cell_def accept_def Let_def)

lemma search_loop_frame:
  "ids_buffer (search_loop tolerance test cs s) = ids_buffer s \<and>
   stderr (search_loop tolerance test cs s) = stderr s"
proof (induction cs arbitrary: s)
  case Nil
  show ?case by simp
next
  case (Cons p cs)
  obtain a cid where p: "p = (a, cid)" by (cases p)
  obtain fl s' where t: "try_cell tolerance test a cid s = (fl, s')"
    by (cases "try_cell tolerance test a cid s")
  have fr: "ids_buffer s' = ids_buffer s \<and> stderr s' = stderr s"
    using try_cell_frame [of tolerance test a cid s] t by simp
  show ?case
  proof (cases fl)
    case Continue
    with p t fr Cons.IH [of s'] show ?thesis by simp
  next
    case Break
    with p t fr show ?thesis by simp
  qed
qed

text \<open>Candidates that are neither hits nor close enough leave the result alone.\<close>

lemma search_loop_retain:
  assumes "\<forall>(a, cid) \<in> set cs. 0 < snd (test a) \<and> (tolerance \<le> snd (test a) \<or> ref_cell_dist_l1 s \<le> snd (test a))"
  shows "cell (search_loop tolerance test cs s) = cell s \<and>
         found_ref_coords (search_loop tolerance test cs s) = found_ref_coords s \<and>
         found_ref_cell_dist_l1 (search_loop tolerance test cs s) = found_ref_cell_dist_l1 s \<and>
         tested (search_loop tolerance test cs s) = tested s @ map fst cs \<and>
         ref_cell_dist_l1 (search_loop tolerance test cs s) \<le> ref_cell_dist_l1 s \<and>
         (tolerance \<le> ref_cell_dist_l1 s \<longrightarrow> tolerance \<le> ref_cell_dist_l1 (search_loop tolerance test cs s))"
  using assms
proof (induction cs arbitrary: s)
  case Nil
  show ?case by simp
next
  case (Cons p cs)
  obtain a cid where p: "p = (a, cid)" by (cases p)
  from Cons.prems p have pos: "0 < snd (test a)"
    and far: "tolerance \<le> snd (test a) \<or> ref_cell_dist_l1 s \<le> snd (test a)"
    and rest: "\<forall>(b, r) \<in> set cs. 0 < snd (test b) \<and> (tolerance \<le> snd (test b) \<or> ref_cell_dist_l1 s \<le> snd (test b))"
    by auto
  show ?case
  proof (cases "snd (test a) < ref_cell_dist_l1 s")
    case True
    with far have nt: "\<not> snd (test a) < tolerance" by auto
    let ?s1 = "s\<lparr>temp_ref_coords := fst (test a), current_ref_cell_dist_l1 := snd (test a),
              tested := tested s @ [a], ref_cell_dist_l1 := snd (test a)\<rparr>"
    have step: "try_cell tolerance test a cid s = (Continue, ?s1)"
      using pos True nt by (simp add: try_cell_closer)
    have "\<forall>(b, r) \<in> set cs. 0 < snd (test b) \<and> (tolerance \<le> snd (test b) \<or> ref_cell_dist_l1 ?s1 \<le> snd (test b))"
      using rest True nt by fastforce
    from Cons.IH [OF this] step p True nt show ?thesis by simp
  next
    case False
    let ?s1 = "s\<lparr>temp_ref_coords := fst (test a), current_ref_cell_dist_l1 := snd (test a),
              tested := tested s @ [a]\<rparr>"
    have step: "try_cell tolerance test a cid s = (Continue, ?s1)"
      using pos False by (simp add: try_cell_far)
    have "\<forall>(b, r) \<in> set cs. 0 < snd (test b) \<and> (tolerance \<le> snd (test b) \<or> ref_cell_dist_l1 ?s1 \<le> snd (test b))"
      using rest by simp
    from Cons.IH [OF this] step p show ?thesis by simp
  qed
qed

text \<open>The first candidate with a distance \<open>\<le> 0\<close> ends the loop and is the result.\<close>

lemma search_loop_first_hit:
  assumes "\<forall>(b, r) \<in> set pre. 0 < snd (test b)" and "snd (test a) \<le> 0"
  shows "cell (search_loop tolerance test (pre @ (a, cid) # post) s) = cid \<and>
         found_ref_coords (search_loop tolerance test (pre @ (a, cid) # post) s) = fst (test a) \<and>
         found_ref_cell_dist_l1 (search_loop tolerance test (pre @ (a, cid) # post) s) = snd (test a) \<and>
         tested (search_loop tolerance test (pre @ (a, cid) # post) s) = tested s @ map fst pre @ [a]"
  using assms(1)
proof (induction pre arbitrary: s)
  case Nil
  show ?case using assms(2) by (simp add: try_cell_exact)
next
  case (Cons p pre)
  obtain b r where p: "p = (b, r)" by (cases p)
  from Cons.prems p have pos: "0 < snd (test b)" and rest: "\<forall>(b, r) \<in> set pre. 0 < snd (test b)"
    by auto
  obtain s' where step: "try_cell tolerance test b r s = (Continue, s')" and tst: "tested s' = tested s @ [b]"
    using try_cell_miss [of test b tolerance r s] pos
    by (cases "try_cell tolerance test b r s") simp
  from Cons.IH [OF rest, of s'] step p tst show ?case by simp
qed

lemma arg_min_list_map:
  assumes "xs \<noteq> []"
  shows "arg_min_list f (map g xs) = g (arg_min_list (\<lambda>x. f (g x)) xs)"
  using assms
proof (induction xs rule: list_nonempty_induct)
  case (single x)
  show ?case by simp
next
  case (cons x xs)
  from cons.hyps obtain y ys where xs: "xs = y # ys" by (cases xs) auto
  from cons.IH show ?case unfolding xs by (simp add: Let_def)
qed

text \<open>
  When all distances are positive and the smallest is under the tolerance and under the
  best distance so far, the loop ends with the first candidate of smallest distance.
\<close>

lemma search_loop_nearest:
  assumes "cs \<noteq> []" and "\<forall>(b, r) \<in> set cs. 0 < snd (test b)"
    and "arg_min_list (\<lambda>p. snd (test (fst p))) cs = (a, cid)"
    and "snd (test a) < ref_cell_dist_l1 s" and "snd (test a) < tolerance"
  shows "cell (search_loop tolerance test cs s) = cid \<and>
         found_ref_coords (search_loop tolerance test cs s) = fst (test a) \<and>
         found_ref_cell_dist_l1 (search_loop tolerance test cs s) = snd (test a) \<and>
         tested (search_loop tolerance test cs s) = tested s @ map fst cs"
  using assms
proof (induction cs arbitrary: s rule: list_nonempty_induct)
  case (single p)
  then have p: "p = (a, cid)" by simp
  with single show ?case by (simp add: try_cell_accept)
next
  case (cons p cs)
  obtain b r where p: "p = (b, r)" by (cases p)
  let ?f = "\<lambda>p. snd (test (fst p))"
  obtain a' cid' where m: "arg_min_list ?f cs = (a', cid')"
    by (cases "arg_min_list ?f cs")
  from cons.hyps obtain y zs where cs: "cs = y # zs" by (cases cs) auto
  have am: "arg_min_list ?f (p # cs) = (if ?f p \<le> ?f (a', cid') then p else (a', cid'))"
    using m unfolding cs by (simp add: Let_def)
  have min_cs: "\<forall>q \<in> set cs. snd (test a') \<le> ?f q"
  proof
    fix q assume "q \<in> set cs"
    have "?f (arg_min_list ?f cs) = Min (?f ` set cs)"
      by (rule f_arg_min_list_f [OF cons.hyps])
    with m \<open>q \<in> set cs\<close> show "snd (test a') \<le> ?f q" by simp
  qed
  from cons.prems(1) p have pos: "0 < snd (test b)"
    and rest: "\<forall>(b, r) \<in> set cs. 0 < snd (test b)" by auto
  show ?case
  proof (cases "snd (test b) \<le> snd (test a')")
    case True
    with am p cons.prems(2) have eq: "a = b" "cid = r" by simp_all
    let ?s1 = "s\<lparr>temp_ref_coords := fst (test b), current_ref_cell_dist_l1 := snd (test b),
              tested := tested s @ [b], ref_cell_dist_l1 := snd (test b), cell := r,
              found_ref_coords := fst (test b), found_ref_cell_dist_l1 := snd (test b)\<rparr>"
    have step: "try_cell tolerance test b r s = (Continue, ?s1)"
      using pos cons.prems(3,4) eq by (simp add: try_cell_accept)
    have "\<forall>(c, r') \<in> set cs. 0 < snd (test c) \<and>
        (tolerance \<le> snd (test c) \<or> ref_cell_dist_l1 ?s1 \<le> snd (test c))"
      using rest min_cs True by fastforce
    from search_loop_retain [OF this] step p eq show ?thesis by simp
  next
    case False
    with am p cons.prems(2) have eq: "a = a'" "cid = cid'" by simp_all
    obtain s1 where step: "try_cell tolerance test b r s = (Continue, s1)"
      and tst: "tested s1 = tested s @ [b]"
      and best: "ref_cell_dist_l1 s1 = min (ref_cell_dist_l1 s) (snd (test b))"
      using try_cell_miss [of test b tolerance r s] pos
      by (cases "try_cell tolerance test b r s") simp
    have "snd (test a) < ref_cell_dist_l1 s1"
      using best False eq cons.prems(3) by simp
    from cons.IH [OF rest _ this cons.prems(4)] m eq step p tst show ?thesis by simp
  qed
qed

text \<open>
  Whatever the distances: the result is either the one the loop started with, or an
  accepted candidate with the contents and the distance its test delivered.
\<close>

lemma search_loop_origin:
  "(cell (search_loop tolerance test cs s) = cell s \<and>
    found_ref_coords (search_loop tolerance test cs s) = found_ref_coords s \<and>
    found_ref_cell_dist_l1 (search_loop tolerance test cs s) = found_ref_cell_dist_l1 s) \<or>
   (\<exists>(a, cid) \<in> set cs.
      cell (search_loop tolerance test cs s) = cid \<and>
      found_ref_coords (search_loop tolerance test cs s) = fst (test a) \<and>
      found_ref_cell_dist_l1 (search_loop tolerance test cs s) = snd (test a))"
proof (induction cs arbitrary: s)
  case Nil
  show ?case by simp
next
  case (Cons p cs)
  obtain a cid where p: "p = (a, cid)" by (cases p)
  obtain fl s1 where step: "try_cell tolerance test a cid s = (fl, s1)"
    by (cases "try_cell tolerance test a cid s")
  have s1: "(cell s1 = cell s \<and> found_ref_coords s1 = found_ref_coords s \<and>
             found_ref_cell_dist_l1 s1 = found_ref_cell_dist_l1 s \<and> fl = Continue) \<or>
            (cell s1 = cid \<and> found_ref_coords s1 = fst (test a) \<and>
             found_ref_cell_dist_l1 s1 = snd (test a))"
    using step by (auto simp add: try_cell_def accept_def Let_def split: if_splits)
  show ?case
  proof (cases fl)
    case Break
    with s1 step p show ?thesis by auto
  next
    case Continue
    with step p have run: "search_loop tolerance test (p # cs) s = search_loop tolerance test cs s1"
      by simp
    have "set (p # cs) = insert (a, cid) (set cs)" using p by simp
    with Cons.IH [of s1] s1 show ?thesis unfolding run by auto
  qed
qed

text \<open>The tests run on a prefix of the candidates, in their order.\<close>

lemma search_loop_tested:
  "\<exists>ts. tested (search_loop tolerance test cs s) = tested s @ ts \<and> prefix ts (map fst cs)"
proof (induction cs arbitrary: s)
  case Nil
  show ?case by simp
next
  case (Cons p cs)
  obtain a cid where p: "p = (a, cid)" by (cases p)
  obtain fl s1 where step: "try_cell tolerance test a cid s = (fl, s1)"
    by (cases "try_cell tolerance test a cid s")
  have tst: "tested s1 = tested s @ [a]"
    using step by (auto simp add: try_cell_def accept_def Let_def split: if_splits)
  show ?case
  proof (cases fl)
    case Break
    with step p tst show ?thesis by simp
  next
    case Continue
    from Cons.IH [of s1] obtain ts
      where "tested (search_loop tolerance test cs s1) = tested s1 @ ts" and "prefix ts (map fst cs)"
      by blast
    with Continue step p tst show ?thesis by simp
  qed
qed

lemma loop_sidx_xtr_eq:
  assumes "nlayers \<noteq> 0"
  shows "loop_sidx_xtr tolerance test nlayers ids s =
         Inr (search_loop tolerance test (sidx_xtr_candidates nlayers ids) s)"
proof (induction ids arbitrary: s)
  case Nil
  show ?case by (simp add: sidx_xtr_candidates_def)
next
  case (Cons i ids)
  obtain fl s1 where step:
    "try_cell tolerance test (Xtr (i sdiv nlayers) (i smod nlayers)) i s = (fl, s1)"
    by (cases "try_cell tolerance test (Xtr (i sdiv nlayers) (i smod nlayers)) i s")
  show ?case
    using assms step Cons.IH [of s1]
    by (cases fl) (simp_all add: decode_def sidx_xtr_candidates_def)
qed

lemma loop_sidx_xtr_zero:
  "loop_sidx_xtr tolerance test 0 ids s = (if ids = [] then Inr s else Inl DivisionByZero)"
  by (cases ids) (simp_all add: decode_def)

subsection \<open>The loop over the columns\<close>

lemma set_column_candidates:
  "set (column_candidates nlayers c) = (\<lambda>l. (Xtr c l, l)) ` {0..nlayers - 1}"
  by (simp add: column_candidates_def)

lemma map_fst_column_candidates:
  "map fst (column_candidates nlayers c) = map (Xtr c) [0..nlayers - 1]"
  by (simp add: column_candidates_def comp_def)

lemma loop_columns_frame:
  "ids_buffer (loop_columns tolerance test nlayers cols s) = ids_buffer s \<and>
   stderr (loop_columns tolerance test nlayers cols s) = stderr s"
proof (induction cols arbitrary: s)
  case Nil
  show ?case by simp
next
  case (Cons c cols)
  let ?s1 = "search_loop tolerance test (column_candidates nlayers c) s"
  have "ids_buffer ?s1 = ids_buffer s \<and> stderr ?s1 = stderr s"
    by (rule search_loop_frame)
  with Cons.IH [of ?s1] show ?case by (simp add: Let_def)
qed

lemma loop_columns_retain:
  assumes "\<forall>c \<in> set cols. \<forall>l \<in> {0..nlayers - 1}.
             0 < snd (test (Xtr c l)) \<and> tolerance \<le> snd (test (Xtr c l))"
    and "cell s = - 1"
  shows "cell (loop_columns tolerance test nlayers cols s) = - 1 \<and>
         found_ref_coords (loop_columns tolerance test nlayers cols s) = found_ref_coords s \<and>
         found_ref_cell_dist_l1 (loop_columns tolerance test nlayers cols s) =
           found_ref_cell_dist_l1 s \<and>
         tested (loop_columns tolerance test nlayers cols s) =
           tested s @ concat (map (\<lambda>c. map (Xtr c) [0..nlayers - 1]) cols) \<and>
         (tolerance \<le> ref_cell_dist_l1 s \<longrightarrow>
            tolerance \<le> ref_cell_dist_l1 (loop_columns tolerance test nlayers cols s))"
  using assms
proof (induction cols arbitrary: s)
  case Nil
  then show ?case by simp
next
  case (Cons c cols)
  let ?s1 = "search_loop tolerance test (column_candidates nlayers c) s"
  have "\<forall>(a, cid) \<in> set (column_candidates nlayers c).
          0 < snd (test a) \<and> (tolerance \<le> snd (test a) \<or> ref_cell_dist_l1 s \<le> snd (test a))"
    using Cons.prems(1) by (auto simp add: set_column_candidates)
  from search_loop_retain [OF this]
  have s1: "cell ?s1 = cell s" "found_ref_coords ?s1 = found_ref_coords s"
    "found_ref_cell_dist_l1 ?s1 = found_ref_cell_dist_l1 s"
    "tested ?s1 = tested s @ map (Xtr c) [0..nlayers - 1]"
    "tolerance \<le> ref_cell_dist_l1 s \<longrightarrow> tolerance \<le> ref_cell_dist_l1 ?s1"
    by (simp_all add: map_fst_column_candidates)
  have rest: "\<forall>c \<in> set cols. \<forall>l \<in> {0..nlayers - 1}.
             0 < snd (test (Xtr c l)) \<and> tolerance \<le> snd (test (Xtr c l))"
    using Cons.prems(1) by simp
  have c1: "cell ?s1 = - 1" using s1(1) Cons.prems(2) by simp
  from Cons.IH [OF rest c1] s1 c1 show ?case by (simp add: Let_def)
qed

lemma loop_columns_skip:
  assumes "\<forall>c \<in> set pre. \<forall>l \<in> {0..nlayers - 1}.
             0 < snd (test (Xtr c l)) \<and> tolerance \<le> snd (test (Xtr c l))"
    and "cell s = - 1"
  shows "loop_columns tolerance test nlayers (pre @ rest) s =
         loop_columns tolerance test nlayers rest (loop_columns tolerance test nlayers pre s)"
  using assms
proof (induction pre arbitrary: s)
  case Nil
  show ?case by simp
next
  case (Cons c pre)
  let ?s1 = "search_loop tolerance test (column_candidates nlayers c) s"
  have "\<forall>(a, cid) \<in> set (column_candidates nlayers c).
          0 < snd (test a) \<and> (tolerance \<le> snd (test a) \<or> ref_cell_dist_l1 s \<le> snd (test a))"
    using Cons.prems(1) by (auto simp add: set_column_candidates)
  from search_loop_retain [OF this] Cons.prems(2) have c1: "cell ?s1 = - 1" by simp
  have rest: "\<forall>c \<in> set pre. \<forall>l \<in> {0..nlayers - 1}.
             0 < snd (test (Xtr c l)) \<and> tolerance \<le> snd (test (Xtr c l))"
    using Cons.prems(1) by simp
  from Cons.IH [OF rest c1] c1 show ?case by (simp add: Let_def)
qed

lemma column_candidates_split:
  assumes "0 \<le> l" and "l < nlayers"
  shows "column_candidates nlayers c =
         map (\<lambda>l. (Xtr c l, l)) [0..l - 1] @ (Xtr c l, l) # map (\<lambda>l. (Xtr c l, l)) [l + 1..nlayers - 1]"
proof -
  have "[0..nlayers - 1] = [0..l - 1] @ l # [l + 1..nlayers - 1]"
    using assms by (intro upto_split3) simp_all
  then show ?thesis by (simp add: column_candidates_def)
qed

lemma loop_columns_hit_head:
  assumes "cell s = - 1" and "0 \<le> l" and "l < nlayers"
    and "\<forall>k \<in> {0..l - 1}. 0 < snd (test (Xtr c k))"
    and "snd (test (Xtr c l)) \<le> 0"
  shows "cell (loop_columns tolerance test nlayers (c # post) s) = encode c l nlayers \<and>
         found_ref_coords (loop_columns tolerance test nlayers (c # post) s) = fst (test (Xtr c l)) \<and>
         found_ref_cell_dist_l1 (loop_columns tolerance test nlayers (c # post) s) =
           snd (test (Xtr c l)) \<and>
         tested (loop_columns tolerance test nlayers (c # post) s) =
           tested s @ map (Xtr c) [0..l]"
proof -
  let ?pre = "map (\<lambda>l. (Xtr c l, l)) [0..l - 1]"
  let ?post = "map (\<lambda>l. (Xtr c l, l)) [l + 1..nlayers - 1]"
  let ?s1 = "search_loop tolerance test (column_candidates nlayers c) s"
  have split: "column_candidates nlayers c = ?pre @ (Xtr c l, l) # ?post"
    by (rule column_candidates_split [OF assms(2,3)])
  have pre: "\<forall>(b, r) \<in> set ?pre. 0 < snd (test b)" using assms(4) by auto
  have upto: "[0..l] = [0..l - 1] @ [l]" using assms(2) by (simp add: upto_rec2)
  from search_loop_first_hit [OF pre assms(5), of tolerance l ?post s]
  have s1: "cell ?s1 = l" "found_ref_coords ?s1 = fst (test (Xtr c l))"
    "found_ref_cell_dist_l1 ?s1 = snd (test (Xtr c l))"
    "tested ?s1 = tested s @ map (Xtr c) [0..l]"
    unfolding split [symmetric] by (simp_all add: upto comp_def)
  have "cell ?s1 \<noteq> - 1" using s1(1) assms(2) by simp
  with s1 show ?thesis by (simp add: Let_def)
qed

lemma loop_columns_nearest_head:
  assumes "cell s = - 1" and "0 < nlayers"
    and "\<forall>k \<in> {0..nlayers - 1}. 0 < snd (test (Xtr c k))"
    and "arg_min_list (\<lambda>p. snd (test (fst p))) (column_candidates nlayers c) = (a, l)"
    and "snd (test a) < ref_cell_dist_l1 s" and "snd (test a) < tolerance"
  shows "cell (loop_columns tolerance test nlayers (c # post) s) = encode c l nlayers \<and>
         found_ref_coords (loop_columns tolerance test nlayers (c # post) s) = fst (test a) \<and>
         found_ref_cell_dist_l1 (loop_columns tolerance test nlayers (c # post) s) = snd (test a) \<and>
         a = Xtr c l \<and> 0 \<le> l \<and> l < nlayers"
proof -
  let ?s1 = "search_loop tolerance test (column_candidates nlayers c) s"
  have ne: "column_candidates nlayers c \<noteq> []"
    using assms(2) by (simp add: column_candidates_def)
  have pos: "\<forall>(b, r) \<in> set (column_candidates nlayers c). 0 < snd (test b)"
    using assms(3) by (auto simp add: set_column_candidates)
  have "(a, l) \<in> set (column_candidates nlayers c)"
    using arg_min_list_in [OF ne, of "\<lambda>p. snd (test (fst p))"] assms(4) by simp
  then have al: "a = Xtr c l" "0 \<le> l" "l < nlayers"
    by (auto simp add: set_column_candidates)
  from search_loop_nearest [OF ne pos assms(4,5,6)]
  have s1: "cell ?s1 = l" "found_ref_coords ?s1 = fst (test a)"
    "found_ref_cell_dist_l1 ?s1 = snd (test a)" by simp_all
  have "cell ?s1 \<noteq> - 1" using s1(1) al(2) by simp
  with s1 al show ?thesis by (simp add: Let_def)
qed

lemma loop_columns_origin:
  assumes "cell s = - 1"
  shows "(cell (loop_columns tolerance test nlayers cols s) = - 1 \<and>
          found_ref_coords (loop_columns tolerance test nlayers cols s) = found_ref_coords s \<and>
          found_ref_cell_dist_l1 (loop_columns tolerance test nlayers cols s) =
            found_ref_cell_dist_l1 s) \<or>
         (\<exists>c \<in> set cols. \<exists>l \<in> {0..nlayers - 1}.
            cell (loop_columns tolerance test nlayers cols s) = encode c l nlayers \<and>
            found_ref_coords (loop_columns tolerance test nlayers cols s) = fst (test (Xtr c l)) \<and>
            found_ref_cell_dist_l1 (loop_columns tolerance test nlayers cols s) =
              snd (test (Xtr c l)))"
  using assms
proof (induction cols arbitrary: s)
  case Nil
  then show ?case by simp
next
  case (Cons c cols)
  let ?s1 = "search_loop tolerance test (column_candidates nlayers c) s"
  from search_loop_origin [of tolerance test "column_candidates nlayers c" s]
  consider (same) "cell ?s1 = cell s" "found_ref_coords ?s1 = found_ref_coords s"
      "found_ref_cell_dist_l1 ?s1 = found_ref_cell_dist_l1 s"
    | (hit) l where "l \<in> {0..nlayers - 1}" "cell ?s1 = l"
      "found_ref_coords ?s1 = fst (test (Xtr c l))"
      "found_ref_cell_dist_l1 ?s1 = snd (test (Xtr c l))"
    by (auto simp add: set_column_candidates)
  then show ?case
  proof cases
    case same
    with Cons.prems have c1: "cell ?s1 = - 1" by simp
    from Cons.IH [OF c1] c1 same show ?thesis by (auto simp add: Let_def)
  next
    case hit
    then have "cell ?s1 \<noteq> - 1" by simp
    with hit show ?thesis by (auto simp add: Let_def)
  qed
qed

section \<open>The search\<close>

subsection \<open>\<open>locate_cell\<close> in terms of the loops\<close>

lemma init_locals_simps:
  "cell (init_locals s0) = - 1"
  "ref_cell_dist_l1 (init_locals s0) = DBL_MAX"
  "found_ref_coords (init_locals s0) = found_ref_coords s0"
  "found_ref_cell_dist_l1 (init_locals s0) = found_ref_cell_dist_l1 s0"
  "tested (init_locals s0) = tested s0"
  "stderr (init_locals s0) = stderr s0"
  "ids_buffer (init_locals s0) = ids_buffer s0"
  by (simp_all add: init_locals_def)

lemma locate_cell_body_sidx:
  assumes "candidates f dimn x = Inr cs" and "sidx2 f = Some rtree"
  shows "locate_cell_body RT_None f x dimn try_candidate try_candidate_xtr tolerance s0 =
         Inr (cell (search_loop tolerance (run_test try_candidate try_candidate_xtr f x) cs
                     ((init_locals s0)\<lparr>ids_buffer := Live\<rparr>)),
              (search_loop tolerance (run_test try_candidate try_candidate_xtr f x) cs
                     ((init_locals s0)\<lparr>ids_buffer := Live\<rparr>))\<lparr>ids_buffer := Released\<rparr>)"
proof (cases "extruded f = 0")
  case True
  with assms show ?thesis
    by (auto simp add: locate_cell_body_def candidates_def Let_def)
next
  case False
  show ?thesis
  proof (cases "n_layers f = 0")
    case True
    with False assms have "rtree dimn x = []" and "cs = []"
      by (auto simp add: candidates_def sidx_xtr_candidates_def split: if_splits)
    with False True assms(2) show ?thesis
      by (simp add: locate_cell_body_def Let_def)
  next
    case nz: False
    with False assms have "cs = sidx_xtr_candidates (n_layers f) (rtree dimn x)"
      by (auto simp add: candidates_def)
    with False nz assms(2) show ?thesis
      by (simp add: locate_cell_body_def Let_def loop_sidx_xtr_eq)
  qed
qed

lemma locate_cell_body_flat:
  assumes "sidx2 f = None" and "extruded f = 0"
  shows "locate_cell_body err f x dimn try_candidate try_candidate_xtr tolerance s0 =
         Inr (cell (search_loop tolerance (run_test try_candidate try_candidate_xtr f x)
                     (flat_candidates (n_cols f)) (init_locals s0)),
              search_loop tolerance (run_test try_candidate try_candidate_xtr f x)
                     (flat_candidates (n_cols f)) (init_locals s0))"
  using assms by (simp add: locate_cell_body_def Let_def)

lemma locate_cell_body_columns:
  assumes "sidx2 f = None" and "extruded f \<noteq> 0"
  shows "locate_cell_body err f x dimn try_candidate try_candidate_xtr tolerance s0 =
         Inr (cell (loop_columns tolerance (run_test try_candidate try_candidate_xtr f x)
                     (n_layers f) [0..n_cols f - 1] (init_locals s0)),
              loop_columns tolerance (run_test try_candidate try_candidate_xtr f x)
                     (n_layers f) [0..n_cols f - 1] (init_locals s0))"
  using assms by (simp add: locate_cell_body_def Let_def)

text \<open>
  In every variant but the exhaustive layered one, the function is one run of the loop
  over the candidates; only the heap block differs.
\<close>

lemma locate_cell_search_loop:
  assumes "candidates f dimn x = Inr cs" and "sidx2 f \<noteq> None \<or> extruded f = 0"
  shows "\<exists>b b'. locate_cell f x dimn try_candidate try_candidate_xtr tolerance s0 =
         Inr (cell (search_loop tolerance (run_test try_candidate try_candidate_xtr f x) cs
                     ((init_locals s0)\<lparr>ids_buffer := b\<rparr>)),
              (search_loop tolerance (run_test try_candidate try_candidate_xtr f x) cs
                     ((init_locals s0)\<lparr>ids_buffer := b\<rparr>))\<lparr>ids_buffer := b'\<rparr>)"
proof (cases "sidx2 f")
  case (Some rtree)
  from locate_cell_body_sidx [OF assms(1) Some] show ?thesis
    unfolding locate_cell_def by blast
next
  case None
  with assms have flat: "extruded f = 0" and cs: "cs = flat_candidates (n_cols f)"
    by (auto simp add: candidates_def)
  let ?s = "search_loop tolerance (run_test try_candidate try_candidate_xtr f x) cs (init_locals s0)"
  have "(init_locals s0)\<lparr>ids_buffer := ids_buffer s0\<rparr> = init_locals s0"
    by (simp add: init_locals_def)
  moreover have "?s\<lparr>ids_buffer := ids_buffer ?s\<rparr> = ?s" by simp
  ultimately have "locate_cell f x dimn try_candidate try_candidate_xtr tolerance s0 =
         Inr (cell (search_loop tolerance (run_test try_candidate try_candidate_xtr f x) cs
                     ((init_locals s0)\<lparr>ids_buffer := ids_buffer s0\<rparr>)),
              (search_loop tolerance (run_test try_candidate try_candidate_xtr f x) cs
                     ((init_locals s0)\<lparr>ids_buffer := ids_buffer s0\<rparr>))\<lparr>ids_buffer := ids_buffer ?s\<rparr>)"
    unfolding locate_cell_def locate_cell_body_flat [OF None flat] cs by simp
  then show ?thesis by blast
qed

lemma set_xtr_candidates:
  "set (xtr_candidates ncols nlayers) =
   {(Xtr c l, encode c l nlayers) | c l. 0 \<le> c \<and> c \<le> ncols - 1 \<and> 0 \<le> l \<and> l \<le> nlayers - 1}"
  by (auto simp add: xtr_candidates_def)

lemma map_fst_xtr_candidates:
  "map fst (xtr_candidates ncols nlayers) =
   concat (map (\<lambda>c. map (Xtr c) [0..nlayers - 1]) [0..ncols - 1])"
  by (simp add: xtr_candidates_def map_concat comp_def)

text \<open>Candidates that are all positive and not under the tolerance: nothing is accepted.\<close>

lemma locate_cell_all_far:
  assumes "candidates f dimn x = Inr cs"
    and "\<forall>(a, cid) \<in> set cs.
           0 < snd (run_test try_candidate try_candidate_xtr f x a) \<and>
           tolerance \<le> snd (run_test try_candidate try_candidate_xtr f x a)"
  shows "\<exists>s'. locate_cell f x dimn try_candidate try_candidate_xtr tolerance s0 = Inr (- 1, s') \<and>
           found_ref_coords s' = found_ref_coords s0 \<and>
           found_ref_cell_dist_l1 s' = found_ref_cell_dist_l1 s0 \<and>
           tested s' = tested s0 @ map fst cs"
proof (cases "sidx2 f \<noteq> None \<or> extruded f = 0")
  case True
  let ?test = "run_test try_candidate try_candidate_xtr f x"
  from locate_cell_search_loop [OF assms(1) True] obtain b b'
    where run: "locate_cell f x dimn try_candidate try_candidate_xtr tolerance s0 =
      Inr (cell (search_loop tolerance ?test cs ((init_locals s0)\<lparr>ids_buffer := b\<rparr>)),
           (search_loop tolerance ?test cs ((init_locals s0)\<lparr>ids_buffer := b\<rparr>))\<lparr>ids_buffer := b'\<rparr>)"
    by blast
  have "\<forall>(a, cid) \<in> set cs. 0 < snd (?test a) \<and>
          (tolerance \<le> snd (?test a) \<or>
           ref_cell_dist_l1 ((init_locals s0)\<lparr>ids_buffer := b\<rparr>) \<le> snd (?test a))"
    using assms(2) by fastforce
  from search_loop_retain [OF this] show ?thesis
    unfolding run by (simp add: init_locals_simps)
next
  case False
  then have none: "sidx2 f = None" and xtr: "extruded f \<noteq> 0" by simp_all
  let ?test = "run_test try_candidate try_candidate_xtr f x"
  from assms(1) none xtr have cs: "cs = xtr_candidates (n_cols f) (n_layers f)"
    by (simp add: candidates_def)
  have "\<forall>c \<in> set [0..n_cols f - 1]. \<forall>l \<in> {0..n_layers f - 1}.
          0 < snd (?test (Xtr c l)) \<and> tolerance \<le> snd (?test (Xtr c l))"
    using assms(2) unfolding cs set_xtr_candidates by fastforce
  from loop_columns_retain [OF this, of "init_locals s0"] show ?thesis
    unfolding locate_cell_def locate_cell_body_columns [OF none xtr] cs map_fst_xtr_candidates
    by (simp add: init_locals_simps)
qed

text \<open>
  The result of a search is \<open>-1\<close> with the output buffers as they were, or a candidate
  with what its test delivered.
\<close>

lemma locate_cell_origin:
  assumes "candidates f dimn x = Inr cs"
  shows "\<exists>s'. locate_cell f x dimn try_candidate try_candidate_xtr tolerance s0 = Inr (cell s', s') \<and>
           ((cell s' = - 1 \<and> found_ref_coords s' = found_ref_coords s0 \<and>
             found_ref_cell_dist_l1 s' = found_ref_cell_dist_l1 s0) \<or>
            (\<exists>(a, cid) \<in> set cs. cell s' = cid \<and>
               found_ref_coords s' = fst (run_test try_candidate try_candidate_xtr f x a) \<and>
               found_ref_cell_dist_l1 s' = snd (run_test try_candidate try_candidate_xtr f x a)))"
proof (cases "sidx2 f \<noteq> None \<or> extruded f = 0")
  case True
  let ?test = "run_test try_candidate try_candidate_xtr f x"
  from locate_cell_search_loop [OF assms(1) True] obtain b b'
    where run: "locate_cell f x dimn try_candidate try_candidate_xtr tolerance s0 =
      Inr (cell (search_loop tolerance ?test cs ((init_locals s0)\<lparr>ids_buffer := b\<rparr>)),
           (search_loop tolerance ?test cs ((init_locals s0)\<lparr>ids_buffer := b\<rparr>))\<lparr>ids_buffer := b'\<rparr>)"
    by blast
  let ?s' = "(search_loop tolerance ?test cs ((init_locals s0)\<lparr>ids_buffer := b\<rparr>))\<lparr>ids_buffer := b'\<rparr>"
  have run': "locate_cell f x dimn try_candidate try_candidate_xtr tolerance s0 = Inr (cell ?s', ?s')"
    unfolding run by simp
  from search_loop_origin [of tolerance ?test cs "(init_locals s0)\<lparr>ids_buffer := b\<rparr>"]
  have "(cell ?s' = - 1 \<and> found_ref_coords ?s' = found_ref_coords s0 \<and>
             found_ref_cell_dist_l1 ?s' = found_ref_cell_dist_l1 s0) \<or>
            (\<exists>(a, cid) \<in> set cs. cell ?s' = cid \<and>
               found_ref_coords ?s' = fst (?test a) \<and>
               found_ref_cell_dist_l1 ?s' = snd (?test a))"
    by (simp add: init_locals_simps)
  with run' show ?thesis by blast
next
  case False
  then have none: "sidx2 f = None" and xtr: "extruded f \<noteq> 0" by simp_all
  let ?test = "run_test try_candidate try_candidate_xtr f x"
  from assms(1) none xtr have cs: "cs = xtr_candidates (n_cols f) (n_layers f)"
    by (simp add: candidates_def)
  let ?s' = "loop_columns tolerance ?test (n_layers f) [0..n_cols f - 1] (init_locals s0)"
  have run': "locate_cell f x dimn try_candidate try_candidate_xtr tolerance s0 = Inr (cell ?s', ?s')"
    unfolding locate_cell_def locate_cell_body_columns [OF none xtr] by simp
  from loop_columns_origin [of "init_locals s0" tolerance ?test "n_layers f" "[0..n_cols f - 1]"]
  have "(cell ?s' = - 1 \<and> found_ref_coords ?s' = found_ref_coords s0 \<and>
             found_ref_cell_dist_l1 ?s' = found_ref_cell_dist_l1 s0) \<or>
            (\<exists>(a, cid) \<in> set cs. cell ?s' = cid \<and>
               found_ref_coords ?s' = fst (?test a) \<and>
               found_ref_cell_dist_l1 ?s' = snd (?test a))"
    unfolding cs set_xtr_candidates by (simp add: init_locals_simps) fastforce
  with run' show ?thesis by blast
qed

text \<open>
  C4. A search in which every candidate's distance is positive and not under the
  tolerance returns \<open>-1\<close>.
\<close>

theorem locate_cell_not_found:
  assumes "candidates f dimn x = Inr cs"
    and "\<forall>(a, cid) \<in> set cs.
           0 < snd (run_test try_candidate try_candidate_xtr f x a) \<and>
           tolerance \<le> snd (run_test try_candidate try_candidate_xtr f x a)"
  shows "\<exists>s'. locate_cell f x dimn try_candidate try_candidate_xtr tolerance s0 = Inr (- 1, s')"
  using locate_cell_all_far [OF assms] by blast

theorem locate_cell_not_found_witness:
  "candidates (exhaustive_mesh 0 2 1) 2 [0, 0] = Inr [(Flat 0, 0), (Flat 1, 1)] \<and>
   (\<exists>s'. locate_cell (exhaustive_mesh 0 2 1) [0, 0] 2
           (table_test (\<lambda>c. if c = 0 then 2 else 1 / 2)) (table_test_xtr (\<lambda>c l. 1))
           (1 / 5) example_state = Inr (- 1, s'))"
proof -
  have c: "candidates (exhaustive_mesh 0 2 1) 2 [0, 0] = Inr [(Flat 0, 0), (Flat 1, 1)]"
    by (simp add: candidates_def exhaustive_mesh_def flat_candidates_def upto.simps)
  show ?thesis
    using c locate_cell_not_found [OF c, of "table_test (\<lambda>c. if c = 0 then 2 else 1 / 2)"
        "table_test_xtr (\<lambda>c l. 1)" "1 / 5" example_state]
    by (simp add: table_test_def)
qed

lemma exhaustive_ids_nonneg:
  assumes "sidx2 f = None" and "candidates f dimn x = Inr cs"
    and "n_cols f * n_layers f \<le> INT_MAX + 1"
  shows "\<forall>(a, cid) \<in> set cs. 0 \<le> cid"
proof (cases "extruded f = 0")
  case True
  with assms show ?thesis by (auto simp add: candidates_def flat_candidates_def)
next
  case False
  with assms have cs: "cs = xtr_candidates (n_cols f) (n_layers f)"
    by (simp add: candidates_def)
  have "0 \<le> encode c l (n_layers f)"
    if "0 \<le> c" "c \<le> n_cols f - 1" "0 \<le> l" "l \<le> n_layers f - 1" for c l
  proof -
    have nl: "0 \<le> n_layers f" and lt: "l < n_layers f" using that by simp_all
    have "c * n_layers f \<le> (n_cols f - 1) * n_layers f"
      using that(2) nl by (rule mult_right_mono)
    then have "c * n_layers f + l \<le> n_cols f * n_layers f - 1"
      using that(4) by (simp add: algebra_simps)
    with assms(3) have "c * n_layers f + l \<le> INT_MAX" by simp
    from encode_exact [OF that(1,3) lt this] encode_nonneg [OF that(1,3) lt]
    show ?thesis by simp
  qed
  then show ?thesis unfolding cs set_xtr_candidates by fastforce
qed

text \<open>
  C10. When a search returns \<open>-1\<close> and no candidate carries the id \<open>-1\<close>, the caller's
  \<open>found_ref_coords\<close> and \<open>found_ref_cell_dist_l1[0]\<close> hold what they held before the call:
  \<open>-1\<close> is then returned only when no candidate was accepted. (Cell ids are not negative;
  without an R-tree this holds by construction where the ids fit an \<open>int\<close>, see
  \<open>exhaustive_ids_nonneg\<close>.) Likewise,
  when every distance is positive and not under the tolerance, the search returns \<open>-1\<close>
  and leaves both as they were.
\<close>

theorem locate_cell_not_found_untouched:
  "(candidates f dimn x = Inr cs \<and> (\<forall>(a, cid) \<in> set cs. cid \<noteq> - 1) \<and>
    locate_cell f x dimn try_candidate try_candidate_xtr tolerance s0 = Inr (- 1, s') \<longrightarrow>
      found_ref_coords s' = found_ref_coords s0 \<and>
      found_ref_cell_dist_l1 s' = found_ref_cell_dist_l1 s0) \<and>
   (candidates f dimn x = Inr cs \<and>
    (\<forall>(a, cid) \<in> set cs.
        0 < snd (run_test try_candidate try_candidate_xtr f x a) \<and>
        tolerance \<le> snd (run_test try_candidate try_candidate_xtr f x a)) \<and>
    locate_cell f x dimn try_candidate try_candidate_xtr tolerance s0 = Inr (r, s') \<longrightarrow>
      r = - 1 \<and> found_ref_coords s' = found_ref_coords s0 \<and>
      found_ref_cell_dist_l1 s' = found_ref_cell_dist_l1 s0)"
proof (intro conjI impI)
  assume h: "candidates f dimn x = Inr cs \<and> (\<forall>(a, cid) \<in> set cs. cid \<noteq> - 1) \<and>
    locate_cell f x dimn try_candidate try_candidate_xtr tolerance s0 = Inr (- 1, s')"
  then have c: "candidates f dimn x = Inr cs" by simp
  from locate_cell_origin [OF c, of try_candidate try_candidate_xtr tolerance s0] h
  have "found_ref_coords s' = found_ref_coords s0 \<and>
      found_ref_cell_dist_l1 s' = found_ref_cell_dist_l1 s0" by fastforce
  then show "found_ref_coords s' = found_ref_coords s0"
    and "found_ref_cell_dist_l1 s' = found_ref_cell_dist_l1 s0" by simp_all
next
  assume h: "candidates f dimn x = Inr cs \<and>
    (\<forall>(a, cid) \<in> set cs.
        0 < snd (run_test try_candidate try_candidate_xtr f x a) \<and>
        tolerance \<le> snd (run_test try_candidate try_candidate_xtr f x a)) \<and>
    locate_cell f x dimn try_candidate try_candidate_xtr tolerance s0 = Inr (r, s')"
  then have c: "candidates f dimn x = Inr cs"
    and far: "\<forall>(a, cid) \<in> set cs.
        0 < snd (run_test try_candidate try_candidate_xtr f x a) \<and>
        tolerance \<le> snd (run_test try_candidate try_candidate_xtr f x a)"
    and run: "locate_cell f x dimn try_candidate try_candidate_xtr tolerance s0 = Inr (r, s')"
    by simp_all
  from locate_cell_all_far [OF c far, of s0] run
  have "r = - 1 \<and> found_ref_coords s' = found_ref_coords s0 \<and>
      found_ref_cell_dist_l1 s' = found_ref_cell_dist_l1 s0" by auto
  then show "r = - 1" and "found_ref_coords s' = found_ref_coords s0"
    and "found_ref_cell_dist_l1 s' = found_ref_cell_dist_l1 s0" by simp_all
qed

lemma example_not_found:
  "locate_cell (exhaustive_mesh 0 2 1) [0, 0] 2
           (table_test (\<lambda>c. if c = 0 then 2 else 1 / 2)) (table_test_xtr (\<lambda>c l. 1))
           (1 / 5) example_state =
   Inr (- 1, \<lparr>cell = - 1, ref_cell_dist_l1 = 1 / 2,
         current_ref_cell_dist_l1 = 1 / 2, temp_ref_coords = [1],
         found_ref_coords = [], found_ref_cell_dist_l1 = 0,
         ids_buffer = Unallocated, stderr = [], tested = [Flat 0, Flat 1]\<rparr>)"
  by (simp add: locate_cell_def locate_cell_body_def exhaustive_mesh_def flat_candidates_def
      upto.simps table_test_def init_locals_def try_cell_def accept_def example_state_def
      DBL_MAX_def Let_def)

theorem locate_cell_not_found_untouched_witness:
  "candidates (exhaustive_mesh 0 2 1) 2 [0, 0] = Inr [(Flat 0, 0), (Flat 1, 1)] \<and>
   locate_cell (exhaustive_mesh 0 2 1) [0, 0] 2
           (table_test (\<lambda>c. if c = 0 then 2 else 1 / 2)) (table_test_xtr (\<lambda>c l. 1))
           (1 / 5) example_state =
   Inr (- 1, \<lparr>cell = - 1, ref_cell_dist_l1 = 1 / 2,
         current_ref_cell_dist_l1 = 1 / 2, temp_ref_coords = [1],
         found_ref_coords = [], found_ref_cell_dist_l1 = 0,
         ids_buffer = Unallocated, stderr = [], tested = [Flat 0, Flat 1]\<rparr>) \<and>
   found_ref_coords example_state = [] \<and> found_ref_cell_dist_l1 example_state = 0"
proof -
  have c: "candidates (exhaustive_mesh 0 2 1) 2 [0, 0] = Inr [(Flat 0, 0), (Flat 1, 1)]"
    by (simp add: candidates_def exhaustive_mesh_def flat_candidates_def upto.simps)
  have ids: "\<forall>(a, cid) \<in> set [(Flat 0, 0), (Flat 1, 1::int)]. cid \<noteq> - 1" by simp
  have far: "\<forall>(a, cid) \<in> set [(Flat 0, 0), (Flat 1, 1::int)].
     0 < snd (run_test (table_test (\<lambda>c. if c = 0 then 2 else 1 / 2)) (table_test_xtr (\<lambda>c l. 1))
            (exhaustive_mesh 0 2 1) [0, 0] a) \<and>
     1 / 5 \<le> snd (run_test (table_test (\<lambda>c. if c = 0 then 2 else 1 / 2)) (table_test_xtr (\<lambda>c l. 1))
            (exhaustive_mesh 0 2 1) [0, 0] a)"
    by (simp add: table_test_def)
  note inst = locate_cell_not_found_untouched [where f = "exhaustive_mesh 0 2 1" and dimn = 2
      and x = "[0, 0]" and cs = "[(Flat 0, 0), (Flat 1, 1)]"
      and try_candidate = "table_test (\<lambda>c. if c = 0 then 2 else 1 / 2)"
      and try_candidate_xtr = "table_test_xtr (\<lambda>c l. 1)" and tolerance = "1 / 5"
      and ?s0.0 = example_state and r = "- 1"
      and s' = "\<lparr>cell = - 1, ref_cell_dist_l1 = 1 / 2,
         current_ref_cell_dist_l1 = 1 / 2, temp_ref_coords = [1],
         found_ref_coords = [], found_ref_cell_dist_l1 = 0,
         ids_buffer = Unallocated, stderr = [], tested = [Flat 0, Flat 1]\<rparr>"]
  from inst [THEN conjunct1] inst [THEN conjunct2] c ids far example_not_found
  show ?thesis by simp
qed

text \<open>
  One step: a candidate whose distance is positive and not under the tolerance writes
  neither the recorded cell nor the output buffers.
\<close>

lemma try_cell_not_under_tolerance:
  assumes "0 < snd (test a)" and "\<not> snd (test a) < tolerance"
  shows "fst (try_cell tolerance test a cid s) = Continue \<and>
         cell (snd (try_cell tolerance test a cid s)) = cell s \<and>
         found_ref_coords (snd (try_cell tolerance test a cid s)) = found_ref_coords s \<and>
         found_ref_cell_dist_l1 (snd (try_cell tolerance test a cid s)) = found_ref_cell_dist_l1 s \<and>
         ref_cell_dist_l1 (snd (try_cell tolerance test a cid s)) =
           min (ref_cell_dist_l1 s) (snd (test a))"
  using assms by (simp add: try_cell_def accept_def Let_def)






text \<open>
  Once a candidate has been accepted without ending the loop, the best distance is
  under the tolerance, and stays there.
\<close>

lemma try_cell_accepted_invariant:
  assumes "cell s \<noteq> - 1 \<longrightarrow> ref_cell_dist_l1 s < tolerance"
    and "try_cell tolerance test a cid s = (Continue, s')"
  shows "cell s' \<noteq> - 1 \<longrightarrow> ref_cell_dist_l1 s' < tolerance"
  using assms by (auto simp add: try_cell_def accept_def Let_def split: if_splits)

subsection \<open>The heap block and the error message\<close>

lemma locate_cell_fault:
  assumes "candidates f dimn x = Inl e"
  shows "locate_cell f x dimn try_candidate try_candidate_xtr tolerance s0 = Inl e"
proof -
  from assms obtain rtree where "sidx2 f = Some rtree" "extruded f \<noteq> 0" "n_layers f = 0"
    "rtree dimn x \<noteq> []" "e = DivisionByZero"
    by (auto simp add: candidates_def split: option.splits if_splits)
  then show ?thesis
    by (simp add: locate_cell_def locate_cell_body_def Let_def loop_sidx_xtr_zero)
qed

lemma locate_cell_frame:
  assumes "candidates f dimn x = Inr cs"
  shows "\<exists>r s'. locate_cell f x dimn try_candidate try_candidate_xtr tolerance s0 = Inr (r, s') \<and>
           stderr s' = stderr s0 \<and>
           ids_buffer s' = (if sidx2 f = None then ids_buffer s0 else Released)"
proof (cases "sidx2 f")
  case (Some rtree)
  then show ?thesis
    by (simp add: locate_cell_def locate_cell_body_sidx [OF assms Some] search_loop_frame
        init_locals_simps)
next
  case None
  show ?thesis
  proof (cases "extruded f = 0")
    case True
    from None show ?thesis
      by (simp add: locate_cell_def locate_cell_body_flat [OF None True] search_loop_frame
          init_locals_simps)
  next
    case False
    from None show ?thesis
      by (simp add: locate_cell_def locate_cell_body_columns [OF None False] loop_columns_frame
          init_locals_simps)
  qed
qed

lemma locate_cell_body_no_index:
  assumes "sidx2 f = None"
  shows "locate_cell_body err f x dimn try_candidate try_candidate_xtr tolerance s0 =
         locate_cell f x dimn try_candidate try_candidate_xtr tolerance s0"
  using assms by (simp add: locate_cell_def locate_cell_body_def Let_def)

text \<open>
  C7. With an R-tree attached and \<open>err\<close> other than \<open>RT_None\<close> at line 46, the function
  writes the message and returns \<open>-1\<close>; no containment test has run, the exhaustive loops
  included, and the output buffers are untouched. The message is written only if there
  is an R-tree and \<open>err\<close> is not \<open>RT_None\<close>; \<open>locate_cell\<close> itself, where \<open>err\<close> is \<open>RT_None\<close>,
  never writes it.
\<close>

theorem locate_cell_index_failure:
  "(sidx2 f = Some rtree \<and> err \<noteq> RT_None \<longrightarrow>
      (\<exists>s'. locate_cell_body err f x dimn try_candidate try_candidate_xtr tolerance s0 = Inr (- 1, s') \<and>
         tested s' = tested s0 \<and>
         found_ref_coords s' = found_ref_coords s0 \<and>
         found_ref_cell_dist_l1 s' = found_ref_cell_dist_l1 s0 \<and>
         stderr s' = stderr s0 @ [index_error_message])) \<and>
   (\<forall>r s'. locate_cell_body err f x dimn try_candidate try_candidate_xtr tolerance s0 = Inr (r, s') \<and>
         stderr s' \<noteq> stderr s0 \<longrightarrow> sidx2 f \<noteq> None \<and> err \<noteq> RT_None) \<and>
   (candidates f dimn x = Inr cs \<longrightarrow>
      (\<exists>r s'. locate_cell f x dimn try_candidate try_candidate_xtr tolerance s0 = Inr (r, s') \<and>
         stderr s' = stderr s0))"
proof (intro conjI impI allI)
  assume "sidx2 f = Some rtree \<and> err \<noteq> RT_None"
  then show "\<exists>s'. locate_cell_body err f x dimn try_candidate try_candidate_xtr tolerance s0 = Inr (- 1, s') \<and>
         tested s' = tested s0 \<and>
         found_ref_coords s' = found_ref_coords s0 \<and>
         found_ref_cell_dist_l1 s' = found_ref_cell_dist_l1 s0 \<and>
         stderr s' = stderr s0 @ [index_error_message]"
    by (simp add: locate_cell_body_def Let_def init_locals_simps)
next
  fix r s'
  assume run: "locate_cell_body err f x dimn try_candidate try_candidate_xtr tolerance s0 = Inr (r, s') \<and>
         stderr s' \<noteq> stderr s0"
  have quiet: "locate_cell f x dimn try_candidate try_candidate_xtr tolerance s0 = Inr (r, s') \<Longrightarrow>
      stderr s' = stderr s0"
  proof (cases "candidates f dimn x")
    case (Inl e)
    assume "locate_cell f x dimn try_candidate try_candidate_xtr tolerance s0 = Inr (r, s')"
    with locate_cell_fault [OF Inl, of try_candidate try_candidate_xtr tolerance s0]
    show ?thesis by simp
  next
    case (Inr cs')
    assume "locate_cell f x dimn try_candidate try_candidate_xtr tolerance s0 = Inr (r, s')"
    with locate_cell_frame [OF Inr, of try_candidate try_candidate_xtr tolerance s0]
    show ?thesis by auto
  qed
  show "sidx2 f \<noteq> None"
  proof
    assume "sidx2 f = None"
    from locate_cell_body_no_index [OF this, of err x dimn try_candidate try_candidate_xtr tolerance s0]
      run quiet show False by simp
  qed
  show "err \<noteq> RT_None"
  proof
    assume "err = RT_None"
    with run quiet show False by (simp add: locate_cell_def)
  qed
next
  assume "candidates f dimn x = Inr cs"
  from locate_cell_frame [OF this, of try_candidate try_candidate_xtr tolerance s0]
  show "\<exists>r s'. locate_cell f x dimn try_candidate try_candidate_xtr tolerance s0 = Inr (r, s') \<and>
         stderr s' = stderr s0" by blast
qed

lemma example_index_failure:
  "locate_cell_body RT_Failure (indexed_mesh [1] 0 1 1) [0, 0] 2
     (table_test (\<lambda>c. - 1)) (table_test_xtr (\<lambda>c l. 1)) (1 / 5) example_state =
   Inr (- 1, \<lparr>cell = - 1, ref_cell_dist_l1 = DBL_MAX, current_ref_cell_dist_l1 = - (1 / 2),
          temp_ref_coords = [], found_ref_coords = [], found_ref_cell_dist_l1 = 0,
          ids_buffer = Live,
          stderr = [''ERROR: Index_Intersects_id failed in libspatialindex!''],
          tested = []\<rparr>)"
  by (simp add: locate_cell_body_def indexed_mesh_def init_locals_def example_state_def
      index_error_message_def Let_def)

theorem locate_cell_index_failure_witness:
  "sidx2 (indexed_mesh [1] 0 1 1) = Some (\<lambda>d x. [1]) \<and> RT_Failure \<noteq> RT_None \<and>
   locate_cell_body RT_Failure (indexed_mesh [1] 0 1 1) [0, 0] 2
     (table_test (\<lambda>c. - 1)) (table_test_xtr (\<lambda>c l. 1)) (1 / 5) example_state =
   Inr (- 1, \<lparr>cell = - 1, ref_cell_dist_l1 = DBL_MAX, current_ref_cell_dist_l1 = - (1 / 2),
          temp_ref_coords = [], found_ref_coords = [], found_ref_cell_dist_l1 = 0,
          ids_buffer = Live,
          stderr = [''ERROR: Index_Intersects_id failed in libspatialindex!''],
          tested = []\<rparr>) \<and>
   candidates (indexed_mesh [1] 0 1 1) 2 [0, 0] = Inr [(Flat 0, 0)] \<and>
   (\<exists>r s'. locate_cell (indexed_mesh [1] 0 1 1) [0, 0] 2
     (table_test (\<lambda>c. - 1)) (table_test_xtr (\<lambda>c l. 1)) (1 / 5) example_state = Inr (r, s') \<and>
     stderr s' = [])"
proof -
  have h1: "sidx2 (indexed_mesh [1] 0 1 1) = Some (\<lambda>d x. [1])"
    by (simp add: indexed_mesh_def)
  have h2: "RT_Failure \<noteq> RT_None" by simp
  have h3: "candidates (indexed_mesh [1] 0 1 1) 2 [0, 0] = Inr [(Flat 0, 0)]"
    by (simp add: candidates_def indexed_mesh_def sidx_flat_candidates_def)
  note inst = locate_cell_index_failure [where f = "indexed_mesh [1] 0 1 1"
      and rtree = "\<lambda>d x. [1]" and err = RT_Failure and x = "[0, 0]" and dimn = 2
      and try_candidate = "table_test (\<lambda>c. - 1)" and try_candidate_xtr = "table_test_xtr (\<lambda>c l. 1)"
      and tolerance = "1 / 5" and ?s0.0 = example_state and cs = "[(Flat 0, 0)]"]
  from inst h3 have "\<exists>r s'. locate_cell (indexed_mesh [1] 0 1 1) [0, 0] 2
     (table_test (\<lambda>c. - 1)) (table_test_xtr (\<lambda>c l. 1)) (1 / 5) example_state = Inr (r, s') \<and>
     stderr s' = stderr example_state" by blast
  then have h4: "\<exists>r s'. locate_cell (indexed_mesh [1] 0 1 1) [0, 0] 2
     (table_test (\<lambda>c. - 1)) (table_test_xtr (\<lambda>c l. 1)) (1 / 5) example_state = Inr (r, s') \<and>
     stderr s' = []" by (simp add: example_state_def)
  from h1 h2 example_index_failure h3 h4 show ?thesis by blast
qed



text \<open>
  The branch of line 46, were \<open>err\<close> ever set, returns at line 48, before the \<open>free\<close> of
  line 98.
\<close>

lemma index_failure_branch_keeps_ids:
  "locate_cell_body RT_Failure (indexed_mesh [1] 0 1 1) [0, 0] 2
     (table_test (\<lambda>c. - 1)) (table_test_xtr (\<lambda>c l. 1)) (1 / 5) example_state =
   Inr (- 1, \<lparr>cell = - 1, ref_cell_dist_l1 = DBL_MAX, current_ref_cell_dist_l1 = - (1 / 2),
          temp_ref_coords = [], found_ref_coords = [], found_ref_cell_dist_l1 = 0,
          ids_buffer = Live,
          stderr = [''ERROR: Index_Intersects_id failed in libspatialindex!''],
          tested = []\<rparr>) \<and>
   Live \<noteq> Released"
  using example_index_failure by simp

subsection \<open>The ids of the R-tree\<close>

lemma locate_cell_sidx_run:
  assumes "candidates f dimn x = Inr cs" and "sidx2 f = Some rtree"
  shows "locate_cell f x dimn try_candidate try_candidate_xtr tolerance s0 =
         Inr (cell (search_loop tolerance (run_test try_candidate try_candidate_xtr f x) cs
                     ((init_locals s0)\<lparr>ids_buffer := Live\<rparr>)),
              (search_loop tolerance (run_test try_candidate try_candidate_xtr f x) cs
                     ((init_locals s0)\<lparr>ids_buffer := Live\<rparr>))\<lparr>ids_buffer := Released\<rparr>)"
  by (simp add: locate_cell_def locate_cell_body_sidx [OF assms])

text \<open>
  C6. With an R-tree on a flat mesh, the tests run on the cells \<open>id - 1\<close> of the ids the
  R-tree delivered, in their order: up to the first id whose cell has a distance \<open>\<le> 0\<close>,
  and then \<open>id - 1\<close> of that id is returned with what its test delivered; or, when all
  distances are positive, on all of them, and then \<open>id - 1\<close> of the first id of smallest
  distance is returned if that distance is under the tolerance (and below \<open>DBL_MAX\<close>).
  With an R-tree on a layered mesh the same holds with the tests run on the decoded
  columns and layers and the id itself, undecoded, returned.
\<close>

theorem locate_cell_indexed_ids:
  "(sidx2 f = Some rtree \<and> extruded f = 0 \<and> rtree dimn x = pre @ i # post \<and>
    (\<forall>j \<in> set pre. 0 < snd (try_candidate f (j - 1) x)) \<and>
    snd (try_candidate f (i - 1) x) \<le> 0 \<longrightarrow>
      (\<exists>s'. locate_cell f x dimn try_candidate try_candidate_xtr tolerance s0 = Inr (i - 1, s') \<and>
         found_ref_coords s' = fst (try_candidate f (i - 1) x) \<and>
         found_ref_cell_dist_l1 s' = snd (try_candidate f (i - 1) x) \<and>
         tested s' = tested s0 @ map (\<lambda>j. Flat (j - 1)) (pre @ [i]))) \<and>
   (sidx2 f = Some rtree \<and> extruded f = 0 \<and> rtree dimn x \<noteq> [] \<and>
    (\<forall>j \<in> set (rtree dimn x). 0 < snd (try_candidate f (j - 1) x)) \<and>
    arg_min_list (\<lambda>j. snd (try_candidate f (j - 1) x)) (rtree dimn x) = i \<and>
    snd (try_candidate f (i - 1) x) < tolerance \<and>
    snd (try_candidate f (i - 1) x) < DBL_MAX \<longrightarrow>
      (\<exists>s'. locate_cell f x dimn try_candidate try_candidate_xtr tolerance s0 = Inr (i - 1, s') \<and>
         found_ref_coords s' = fst (try_candidate f (i - 1) x) \<and>
         found_ref_cell_dist_l1 s' = snd (try_candidate f (i - 1) x) \<and>
         tested s' = tested s0 @ map (\<lambda>j. Flat (j - 1)) (rtree dimn x))) \<and>
   (sidx2 f = Some rtree \<and> extruded f \<noteq> 0 \<and> rtree dimn x = pre @ i # post \<and>
    decode i (n_layers f) = Inr (c, l) \<and>
    (\<forall>j \<in> set pre. 0 < snd (try_candidate_xtr f (j sdiv n_layers f) (j smod n_layers f) x)) \<and>
    snd (try_candidate_xtr f c l x) \<le> 0 \<longrightarrow>
      (\<exists>s'. locate_cell f x dimn try_candidate try_candidate_xtr tolerance s0 = Inr (i, s') \<and>
         found_ref_coords s' = fst (try_candidate_xtr f c l x) \<and>
         found_ref_cell_dist_l1 s' = snd (try_candidate_xtr f c l x) \<and>
         tested s' = tested s0 @
           map (\<lambda>j. Xtr (j sdiv n_layers f) (j smod n_layers f)) pre @ [Xtr c l])) \<and>
   (sidx2 f = Some rtree \<and> extruded f \<noteq> 0 \<and> rtree dimn x \<noteq> [] \<and>
    (\<forall>j \<in> set (rtree dimn x).
        0 < snd (try_candidate_xtr f (j sdiv n_layers f) (j smod n_layers f) x)) \<and>
    arg_min_list (\<lambda>j. snd (try_candidate_xtr f (j sdiv n_layers f) (j smod n_layers f) x))
      (rtree dimn x) = i \<and>
    decode i (n_layers f) = Inr (c, l) \<and>
    snd (try_candidate_xtr f c l x) < tolerance \<and>
    snd (try_candidate_xtr f c l x) < DBL_MAX \<longrightarrow>
      (\<exists>s'. locate_cell f x dimn try_candidate try_candidate_xtr tolerance s0 = Inr (i, s') \<and>
         found_ref_coords s' = fst (try_candidate_xtr f c l x) \<and>
         found_ref_cell_dist_l1 s' = snd (try_candidate_xtr f c l x) \<and>
         tested s' = tested s0 @
           map (\<lambda>j. Xtr (j sdiv n_layers f) (j smod n_layers f)) (rtree dimn x)))"
proof (intro conjI impI)
  let ?test = "run_test try_candidate try_candidate_xtr f x"
  let ?g = "\<lambda>j. (Flat (j - 1), j - 1)"
  assume h: "sidx2 f = Some rtree \<and> extruded f = 0 \<and> rtree dimn x = pre @ i # post \<and>
    (\<forall>j \<in> set pre. 0 < snd (try_candidate f (j - 1) x)) \<and>
    snd (try_candidate f (i - 1) x) \<le> 0"
  then have sx: "sidx2 f = Some rtree"
    and c: "candidates f dimn x = Inr (map ?g pre @ (Flat (i - 1), i - 1) # map ?g post)"
    and p: "\<forall>(b, r) \<in> set (map ?g pre). 0 < snd (?test b)"
    and hit: "snd (?test (Flat (i - 1))) \<le> 0"
    by (auto simp add: candidates_def sidx_flat_candidates_def)
  from search_loop_first_hit [OF p hit, of tolerance "i - 1" "map ?g post"
      "(init_locals s0)\<lparr>ids_buffer := Live\<rparr>"]
  show "\<exists>s'. locate_cell f x dimn try_candidate try_candidate_xtr tolerance s0 = Inr (i - 1, s') \<and>
         found_ref_coords s' = fst (try_candidate f (i - 1) x) \<and>
         found_ref_cell_dist_l1 s' = snd (try_candidate f (i - 1) x) \<and>
         tested s' = tested s0 @ map (\<lambda>j. Flat (j - 1)) (pre @ [i])"
    unfolding locate_cell_sidx_run [OF c sx] by (simp add: init_locals_simps comp_def)
next
  let ?test = "run_test try_candidate try_candidate_xtr f x"
  let ?g = "\<lambda>j. (Flat (j - 1), j - 1)"
  let ?ids = "rtree dimn x"
  assume h: "sidx2 f = Some rtree \<and> extruded f = 0 \<and> rtree dimn x \<noteq> [] \<and>
    (\<forall>j \<in> set (rtree dimn x). 0 < snd (try_candidate f (j - 1) x)) \<and>
    arg_min_list (\<lambda>j. snd (try_candidate f (j - 1) x)) (rtree dimn x) = i \<and>
    snd (try_candidate f (i - 1) x) < tolerance \<and>
    snd (try_candidate f (i - 1) x) < DBL_MAX"
  then have sx: "sidx2 f = Some rtree" and ne: "?ids \<noteq> []"
    and c: "candidates f dimn x = Inr (map ?g ?ids)"
    and pos: "\<forall>(b, r) \<in> set (map ?g ?ids). 0 < snd (?test b)"
    and am: "arg_min_list (\<lambda>j. snd (try_candidate f (j - 1) x)) ?ids = i"
    and near: "snd (?test (Flat (i - 1))) < tolerance"
    and best: "snd (?test (Flat (i - 1))) < ref_cell_dist_l1 ((init_locals s0)\<lparr>ids_buffer := Live\<rparr>)"
    by (auto simp add: candidates_def sidx_flat_candidates_def init_locals_simps)
  have ne': "map ?g ?ids \<noteq> []" using ne by simp
  have am': "arg_min_list (\<lambda>p. snd (?test (fst p))) (map ?g ?ids) = (Flat (i - 1), i - 1)"
    unfolding arg_min_list_map [OF ne] using am by simp
  from search_loop_nearest [OF ne' pos am' best near]
  show "\<exists>s'. locate_cell f x dimn try_candidate try_candidate_xtr tolerance s0 = Inr (i - 1, s') \<and>
         found_ref_coords s' = fst (try_candidate f (i - 1) x) \<and>
         found_ref_cell_dist_l1 s' = snd (try_candidate f (i - 1) x) \<and>
         tested s' = tested s0 @ map (\<lambda>j. Flat (j - 1)) (rtree dimn x)"
    unfolding locate_cell_sidx_run [OF c sx] by (simp add: init_locals_simps comp_def)
next
  let ?test = "run_test try_candidate try_candidate_xtr f x"
  let ?n = "n_layers f"
  let ?g = "\<lambda>j. (Xtr (j sdiv ?n) (j smod ?n), j)"
  assume h: "sidx2 f = Some rtree \<and> extruded f \<noteq> 0 \<and> rtree dimn x = pre @ i # post \<and>
    decode i (n_layers f) = Inr (c, l) \<and>
    (\<forall>j \<in> set pre. 0 < snd (try_candidate_xtr f (j sdiv n_layers f) (j smod n_layers f) x)) \<and>
    snd (try_candidate_xtr f c l x) \<le> 0"
  then have nz: "?n \<noteq> 0" and cl: "c = i sdiv ?n" "l = i smod ?n"
    by (auto simp add: decode_def split: if_splits)
  from h nz cl have sx: "sidx2 f = Some rtree"
    and c: "candidates f dimn x = Inr (map ?g pre @ (Xtr c l, i) # map ?g post)"
    and p: "\<forall>(b, r) \<in> set (map ?g pre). 0 < snd (?test b)"
    and hit: "snd (?test (Xtr c l)) \<le> 0"
    by (auto simp add: candidates_def sidx_xtr_candidates_def)
  from search_loop_first_hit [OF p hit, of tolerance i "map ?g post"
      "(init_locals s0)\<lparr>ids_buffer := Live\<rparr>"]
  show "\<exists>s'. locate_cell f x dimn try_candidate try_candidate_xtr tolerance s0 = Inr (i, s') \<and>
         found_ref_coords s' = fst (try_candidate_xtr f c l x) \<and>
         found_ref_cell_dist_l1 s' = snd (try_candidate_xtr f c l x) \<and>
         tested s' = tested s0 @
           map (\<lambda>j. Xtr (j sdiv n_layers f) (j smod n_layers f)) pre @ [Xtr c l]"
    unfolding locate_cell_sidx_run [OF c sx] by (simp add: init_locals_simps comp_def)
next
  let ?test = "run_test try_candidate try_candidate_xtr f x"
  let ?n = "n_layers f"
  let ?g = "\<lambda>j. (Xtr (j sdiv ?n) (j smod ?n), j)"
  let ?ids = "rtree dimn x"
  assume h: "sidx2 f = Some rtree \<and> extruded f \<noteq> 0 \<and> rtree dimn x \<noteq> [] \<and>
    (\<forall>j \<in> set (rtree dimn x).
        0 < snd (try_candidate_xtr f (j sdiv n_layers f) (j smod n_layers f) x)) \<and>
    arg_min_list (\<lambda>j. snd (try_candidate_xtr f (j sdiv n_layers f) (j smod n_layers f) x))
      (rtree dimn x) = i \<and>
    decode i (n_layers f) = Inr (c, l) \<and>
    snd (try_candidate_xtr f c l x) < tolerance \<and>
    snd (try_candidate_xtr f c l x) < DBL_MAX"
  then have nz: "?n \<noteq> 0" and cl: "c = i sdiv ?n" "l = i smod ?n"
    by (auto simp add: decode_def split: if_splits)
  from h nz cl have sx: "sidx2 f = Some rtree" and ne: "?ids \<noteq> []"
    and c: "candidates f dimn x = Inr (map ?g ?ids)"
    and pos: "\<forall>(b, r) \<in> set (map ?g ?ids). 0 < snd (?test b)"
    and am: "arg_min_list (\<lambda>j. snd (try_candidate_xtr f (j sdiv ?n) (j smod ?n) x)) ?ids = i"
    and near: "snd (?test (Xtr c l)) < tolerance"
    and best: "snd (?test (Xtr c l)) < ref_cell_dist_l1 ((init_locals s0)\<lparr>ids_buffer := Live\<rparr>)"
    by (auto simp add: candidates_def sidx_xtr_candidates_def init_locals_simps)
  have ne': "map ?g ?ids \<noteq> []" using ne by simp
  have am': "arg_min_list (\<lambda>p. snd (?test (fst p))) (map ?g ?ids) = (Xtr c l, i)"
    unfolding arg_min_list_map [OF ne] using am cl by simp
  from search_loop_nearest [OF ne' pos am' best near]
  show "\<exists>s'. locate_cell f x dimn try_candidate try_candidate_xtr tolerance s0 = Inr (i, s') \<and>
         found_ref_coords s' = fst (try_candidate_xtr f c l x) \<and>
         found_ref_cell_dist_l1 s' = snd (try_candidate_xtr f c l x) \<and>
         tested s' = tested s0 @
           map (\<lambda>j. Xtr (j sdiv n_layers f) (j smod n_layers f)) (rtree dimn x)"
    unfolding locate_cell_sidx_run [OF c sx] by (simp add: init_locals_simps comp_def)
qed


theorem locate_cell_indexed_ids_witness:
  "sidx2 (indexed_mesh [3, 1] 0 4 1) = Some (\<lambda>d x. [3, 1]) \<and>
   extruded (indexed_mesh [3, 1] 0 4 1) = 0 \<and>
   (\<exists>s'. locate_cell (indexed_mesh [3, 1] 0 4 1) [0, 0] 2
        (table_test (\<lambda>c. if c = 2 then 1 / 10 else - 1)) (table_test_xtr (\<lambda>c l. 1)) (1 / 5)
        example_state = Inr (0, s') \<and>
      found_ref_coords s' = [0] \<and> tested s' = [Flat 2, Flat 0]) \<and>
   (\<exists>s'. locate_cell (indexed_mesh [3, 1] 0 4 1) [0, 0] 2
        (table_test (\<lambda>c. if c = 2 then 1 / 10 else 1 / 2)) (table_test_xtr (\<lambda>c l. 1)) (1 / 5)
        example_state = Inr (2, s') \<and>
      found_ref_coords s' = [2] \<and> tested s' = [Flat 2, Flat 0]) \<and>
   sidx2 (indexed_mesh [5, 3] 1 2 3) = Some (\<lambda>d x. [5, 3]) \<and>
   extruded (indexed_mesh [5, 3] 1 2 3) \<noteq> 0 \<and>
   decode 3 (n_layers (indexed_mesh [5, 3] 1 2 3)) = Inr (1, 0) \<and>
   decode 5 (n_layers (indexed_mesh [5, 3] 1 2 3)) = Inr (1, 2) \<and>
   (\<exists>s'. locate_cell (indexed_mesh [5, 3] 1 2 3) [0, 0] 2
        (table_test (\<lambda>c. 1)) (table_test_xtr (\<lambda>c l. if l = 0 then - 1 else 1)) (1 / 5)
        example_state = Inr (3, s') \<and>
      found_ref_coords s' = [1, 0] \<and> tested s' = [Xtr 1 2, Xtr 1 0]) \<and>
   (\<exists>s'. locate_cell (indexed_mesh [5, 3] 1 2 3) [0, 0] 2
        (table_test (\<lambda>c. 1)) (table_test_xtr (\<lambda>c l. if l = 0 then 1 / 2 else 1 / 10)) (1 / 5)
        example_state = Inr (5, s') \<and>
      found_ref_coords s' = [1, 2] \<and> tested s' = [Xtr 1 2, Xtr 1 0])"
proof -
  have f1: "sidx2 (indexed_mesh [3, 1] 0 4 1) = Some (\<lambda>d x. [3, 1])"
    and f2: "extruded (indexed_mesh [3, 1] 0 4 1) = 0"
    by (simp_all add: indexed_mesh_def)
  have x1: "sidx2 (indexed_mesh [5, 3] 1 2 3) = Some (\<lambda>d x. [5, 3])"
    and x2: "extruded (indexed_mesh [5, 3] 1 2 3) \<noteq> 0"
    and x4: "n_layers (indexed_mesh [5, 3] 1 2 3) = 3"
    by (simp_all add: indexed_mesh_def)
  have d: "(5::int) sdiv 3 = 1" "(5::int) smod 3 = 2" "(3::int) sdiv 3 = 1" "(3::int) smod 3 = 0"
    by (simp_all add: signed_divide_int_def signed_modulo_int_def)
  have d3: "decode 3 (n_layers (indexed_mesh [5, 3] 1 2 3)) = Inr (1, 0)"
    and d5: "decode 5 (n_layers (indexed_mesh [5, 3] 1 2 3)) = Inr (1, 2)"
    by (simp_all add: decode_def x4 d)
  have big: "(1 / 10 :: real) < DBL_MAX" by (simp add: DBL_MAX_def)
  note hit = locate_cell_indexed_ids [where f = "indexed_mesh [3, 1] 0 4 1"
      and rtree = "\<lambda>d x. [3, 1]" and x = "[0, 0]" and dimn = 2
      and pre = "[3]" and i = 1 and post = "[]"
      and try_candidate = "table_test (\<lambda>c. if c = 2 then 1 / 10 else - 1)"
      and try_candidate_xtr = "table_test_xtr (\<lambda>c l. 1)"
      and tolerance = "1 / 5" and ?s0.0 = example_state, THEN conjunct1]
  from hit f1 f2 have r1: "\<exists>s'. locate_cell (indexed_mesh [3, 1] 0 4 1) [0, 0] 2
        (table_test (\<lambda>c. if c = 2 then 1 / 10 else - 1)) (table_test_xtr (\<lambda>c l. 1)) (1 / 5)
        example_state = Inr (0, s') \<and>
      found_ref_coords s' = [0] \<and> tested s' = [Flat 2, Flat 0]"
    by (auto simp add: table_test_def example_state_def)
  note near = locate_cell_indexed_ids [where f = "indexed_mesh [3, 1] 0 4 1"
      and rtree = "\<lambda>d x. [3, 1]" and x = "[0, 0]" and dimn = 2 and i = 3
      and try_candidate = "table_test (\<lambda>c. if c = 2 then 1 / 10 else 1 / 2)"
      and try_candidate_xtr = "table_test_xtr (\<lambda>c l. 1)"
      and tolerance = "1 / 5" and ?s0.0 = example_state, THEN conjunct2, THEN conjunct1]
  from near f1 f2 big have r2: "\<exists>s'. locate_cell (indexed_mesh [3, 1] 0 4 1) [0, 0] 2
        (table_test (\<lambda>c. if c = 2 then 1 / 10 else 1 / 2)) (table_test_xtr (\<lambda>c l. 1)) (1 / 5)
        example_state = Inr (2, s') \<and>
      found_ref_coords s' = [2] \<and> tested s' = [Flat 2, Flat 0]"
    by (auto simp add: table_test_def example_state_def)
  note xhit = locate_cell_indexed_ids [where f = "indexed_mesh [5, 3] 1 2 3"
      and rtree = "\<lambda>d x. [5, 3]" and x = "[0, 0]" and dimn = 2
      and pre = "[5]" and i = 3 and post = "[]" and c = 1 and l = 0
      and try_candidate = "table_test (\<lambda>c. 1)"
      and try_candidate_xtr = "table_test_xtr (\<lambda>c l. if l = 0 then - 1 else 1)"
      and tolerance = "1 / 5" and ?s0.0 = example_state,
      THEN conjunct2, THEN conjunct2, THEN conjunct1]
  from xhit x1 x2 d3 have r3: "\<exists>s'. locate_cell (indexed_mesh [5, 3] 1 2 3) [0, 0] 2
        (table_test (\<lambda>c. 1)) (table_test_xtr (\<lambda>c l. if l = 0 then - 1 else 1)) (1 / 5)
        example_state = Inr (3, s') \<and>
      found_ref_coords s' = [1, 0] \<and> tested s' = [Xtr 1 2, Xtr 1 0]"
    by (auto simp add: table_test_xtr_def example_state_def x4 d)
  note xnear = locate_cell_indexed_ids [where f = "indexed_mesh [5, 3] 1 2 3"
      and rtree = "\<lambda>d x. [5, 3]" and x = "[0, 0]" and dimn = 2
      and i = 5 and c = 1 and l = 2
      and try_candidate = "table_test (\<lambda>c. 1)"
      and try_candidate_xtr = "table_test_xtr (\<lambda>c l. if l = 0 then 1 / 2 else 1 / 10)"
      and tolerance = "1 / 5" and ?s0.0 = example_state,
      THEN conjunct2, THEN conjunct2, THEN conjunct2]
  from xnear x1 x2 d5 big have r4: "\<exists>s'. locate_cell (indexed_mesh [5, 3] 1 2 3) [0, 0] 2
        (table_test (\<lambda>c. 1)) (table_test_xtr (\<lambda>c l. if l = 0 then 1 / 2 else 1 / 10)) (1 / 5)
        example_state = Inr (5, s') \<and>
      found_ref_coords s' = [1, 2] \<and> tested s' = [Xtr 1 2, Xtr 1 0]"
    by (auto simp add: table_test_xtr_def example_state_def x4 d)
  from f1 f2 r1 r2 x1 x2 d3 d5 r3 r4 show ?thesis by blast
qed

subsection \<open>A smallest distance equal to the tolerance\<close>

lemma Min_dist_far:
  assumes "cs \<noteq> []"
    and "Min ((\<lambda>(a, cid). snd (test a)) ` set cs) = tolerance"
    and "0 < tolerance"
  shows "\<forall>(a, cid) \<in> set cs. 0 < snd (test a) \<and> tolerance \<le> snd (test a)"
proof -
  have "\<And>a cid. (a, cid) \<in> set cs \<Longrightarrow> tolerance \<le> snd (test a)"
  proof -
    fix a cid assume "(a, cid) \<in> set cs"
    then have "snd (test a) \<in> (\<lambda>(a, cid). snd (test a)) ` set cs" by force
    then have "Min ((\<lambda>(a, cid). snd (test a)) ` set cs) \<le> snd (test a)" by simp
    with assms(2) show "tolerance \<le> snd (test a)" by simp
  qed
  with assms(3) show ?thesis by fastforce
qed

text \<open>
  C8, amended. A search whose smallest distance is positive and equal to the tolerance
  returns \<open>-1\<close>: a distance is accepted only when strictly under the tolerance.
\<close>

theorem locate_cell_at_tolerance:
  assumes "candidates f dimn x = Inr cs" and "cs \<noteq> []"
    and "Min ((\<lambda>(a, cid). snd (run_test try_candidate try_candidate_xtr f x a)) ` set cs) = tolerance"
    and "0 < tolerance"
  shows "\<exists>s'. locate_cell f x dimn try_candidate try_candidate_xtr tolerance s0 = Inr (- 1, s')"
  using locate_cell_all_far [OF assms(1) Min_dist_far [OF assms(2,3,4)]] by blast

theorem locate_cell_at_tolerance_witness:
  "candidates (exhaustive_mesh 0 2 1) 2 [0, 0] = Inr [(Flat 0, 0), (Flat 1, 1)] \<and>
   [(Flat 0, 0), (Flat 1, 1::int)] \<noteq> [] \<and>
   Min ((\<lambda>(a, cid). snd (run_test (table_test (\<lambda>c. if c = 0 then 2 else 1 / 5))
          (table_test_xtr (\<lambda>c l. 1)) (exhaustive_mesh 0 2 1) [0, 0] a)) `
        set [(Flat 0, 0), (Flat 1, 1)]) = 1 / 5 \<and>
   (0::real) < 1 / 5 \<and>
   (\<exists>s'. locate_cell (exhaustive_mesh 0 2 1) [0, 0] 2
           (table_test (\<lambda>c. if c = 0 then 2 else 1 / 5)) (table_test_xtr (\<lambda>c l. 1))
           (1 / 5) example_state = Inr (- 1, s'))"
proof -
  have c: "candidates (exhaustive_mesh 0 2 1) 2 [0, 0] = Inr [(Flat 0, 0), (Flat 1, 1)]"
    by (simp add: candidates_def exhaustive_mesh_def flat_candidates_def upto.simps)
  have ne: "[(Flat 0, 0), (Flat 1, 1::int)] \<noteq> []" by simp
  have m: "Min ((\<lambda>(a, cid). snd (run_test (table_test (\<lambda>c. if c = 0 then 2 else 1 / 5))
          (table_test_xtr (\<lambda>c l. 1)) (exhaustive_mesh 0 2 1) [0, 0] a)) `
        set [(Flat 0, 0), (Flat 1, 1)]) = 1 / 5"
    by (simp add: table_test_def)
  have t: "(0::real) < 1 / 5" by simp
  from locate_cell_at_tolerance [OF c ne m t, of example_state] c ne m t
  show ?thesis by blast
qed

text \<open>
  C8 as stated fails: no search whose smallest distance is positive and equal to the
  tolerance returns a cell.
\<close>

theorem tolerance_not_accepted:
  "\<not> (\<exists>f x dimn (try_candidate :: int list ref_cell_l1_dist)
         (try_candidate_xtr :: int list ref_cell_l1_dist_xtr) tolerance s0 cs r s'.
        candidates f dimn x = Inr cs \<and> cs \<noteq> [] \<and>
        Min ((\<lambda>(a, cid). snd (run_test try_candidate try_candidate_xtr f x a)) ` set cs) = tolerance \<and>
        0 < tolerance \<and>
        locate_cell f x dimn try_candidate try_candidate_xtr tolerance s0 = Inr (r, s') \<and>
        r \<noteq> - 1)"
proof
  assume "\<exists>f x dimn (try_candidate :: int list ref_cell_l1_dist)
         (try_candidate_xtr :: int list ref_cell_l1_dist_xtr) tolerance s0 cs r s'.
        candidates f dimn x = Inr cs \<and> cs \<noteq> [] \<and>
        Min ((\<lambda>(a, cid). snd (run_test try_candidate try_candidate_xtr f x a)) ` set cs) = tolerance \<and>
        0 < tolerance \<and>
        locate_cell f x dimn try_candidate try_candidate_xtr tolerance s0 = Inr (r, s') \<and>
        r \<noteq> - 1"
  then obtain f x dimn and try_candidate :: "int list ref_cell_l1_dist"
    and try_candidate_xtr :: "int list ref_cell_l1_dist_xtr" and tolerance s0 cs r s'
    where h: "candidates f dimn x = Inr cs" "cs \<noteq> []"
      "Min ((\<lambda>(a, cid). snd (run_test try_candidate try_candidate_xtr f x a)) ` set cs) = tolerance"
      "0 < tolerance"
      "locate_cell f x dimn try_candidate try_candidate_xtr tolerance s0 = Inr (r, s')"
      "r \<noteq> - 1"
    by blast
  from locate_cell_all_far [OF h(1) Min_dist_far [OF h(2,3,4)], of s0] h(5,6)
  show False by auto
qed

subsection \<open>The first hit and the nearest cell\<close>

lemma upto_split_at:
  assumes "0 \<le> c" and "c < n"
  shows "[0..n - 1] = [0..c - 1] @ c # [c + 1..n - 1]"
  using assms by (intro upto_split3) simp_all

text \<open>The exhaustive layered search, up to the column that decides it.\<close>

lemma locate_cell_columns_upto:
  assumes "sidx2 f = None" and "extruded f \<noteq> 0" and "0 \<le> c" and "c < n_cols f"
    and "\<forall>c' \<in> {0..c - 1}. \<forall>l' \<in> {0..n_layers f - 1}.
           0 < snd (run_test try_candidate try_candidate_xtr f x (Xtr c' l')) \<and>
           tolerance \<le> snd (run_test try_candidate try_candidate_xtr f x (Xtr c' l'))"
  shows "\<exists>s post. locate_cell f x dimn try_candidate try_candidate_xtr tolerance s0 =
           Inr (cell (loop_columns tolerance (run_test try_candidate try_candidate_xtr f x)
                        (n_layers f) (c # post) s),
                loop_columns tolerance (run_test try_candidate try_candidate_xtr f x)
                        (n_layers f) (c # post) s) \<and>
           cell s = - 1 \<and>
           tested s = tested s0 @ map fst (xtr_candidates c (n_layers f)) \<and>
           (tolerance \<le> DBL_MAX \<longrightarrow> tolerance \<le> ref_cell_dist_l1 s)"
proof -
  let ?test = "run_test try_candidate try_candidate_xtr f x"
  let ?pre = "[0..c - 1]"
  let ?post = "[c + 1..n_cols f - 1]"
  let ?s = "loop_columns tolerance ?test (n_layers f) ?pre (init_locals s0)"
  have cols: "[0..n_cols f - 1] = ?pre @ c # ?post"
    by (rule upto_split_at [OF assms(3,4)])
  have far: "\<forall>c' \<in> set ?pre. \<forall>l' \<in> {0..n_layers f - 1}.
           0 < snd (?test (Xtr c' l')) \<and> tolerance \<le> snd (?test (Xtr c' l'))"
    using assms(5) by simp
  have c0: "cell (init_locals s0) = - 1" by (simp add: init_locals_simps)
  have run: "loop_columns tolerance ?test (n_layers f) [0..n_cols f - 1] (init_locals s0) =
             loop_columns tolerance ?test (n_layers f) (c # ?post) ?s"
    unfolding cols by (rule loop_columns_skip [OF far c0])
  from loop_columns_retain [OF far c0]
  have s: "cell ?s = - 1"
    "tested ?s = tested s0 @ map fst (xtr_candidates c (n_layers f))"
    "tolerance \<le> DBL_MAX \<longrightarrow> tolerance \<le> ref_cell_dist_l1 ?s"
    by (simp_all add: init_locals_simps map_fst_xtr_candidates)
  have "locate_cell f x dimn try_candidate try_candidate_xtr tolerance s0 =
           Inr (cell (loop_columns tolerance ?test (n_layers f) (c # ?post) ?s),
                loop_columns tolerance ?test (n_layers f) (c # ?post) ?s)"
    unfolding locate_cell_def locate_cell_body_columns [OF assms(1,2)] run by simp
  with s show ?thesis by blast
qed

text \<open>
  What the code does do. In the two searches with an R-tree and in the exhaustive flat
  search, the first candidate in the order of iteration whose distance is \<open>\<le> 0\<close> is
  returned, with its distance and its reference coordinates in the output, and the tests
  have run on the candidates up to it and on no other. In the exhaustive layered search
  the same holds for the first such column \<open>c\<close> and layer \<open>l\<close> only when no candidate of a
  column before \<open>c\<close> is under the tolerance; the returned id is what line 145 computes.
\<close>

lemma locate_cell_first_hit:
  "(candidates f dimn x = Inr (pre @ (a, cid) # post) \<and> (sidx2 f \<noteq> None \<or> extruded f = 0) \<and>
    (\<forall>(b, r) \<in> set pre. 0 < snd (run_test try_candidate try_candidate_xtr f x b)) \<and>
    snd (run_test try_candidate try_candidate_xtr f x a) \<le> 0 \<longrightarrow>
      (\<exists>s'. locate_cell f x dimn try_candidate try_candidate_xtr tolerance s0 = Inr (cid, s') \<and>
         found_ref_coords s' = fst (run_test try_candidate try_candidate_xtr f x a) \<and>
         found_ref_cell_dist_l1 s' = snd (run_test try_candidate try_candidate_xtr f x a) \<and>
         tested s' = tested s0 @ map fst pre @ [a])) \<and>
   (sidx2 f = None \<and> extruded f \<noteq> 0 \<and> 0 \<le> c \<and> c < n_cols f \<and> 0 \<le> l \<and> l < n_layers f \<and>
    (\<forall>c' \<in> {0..c - 1}. \<forall>l' \<in> {0..n_layers f - 1}.
        0 < snd (run_test try_candidate try_candidate_xtr f x (Xtr c' l')) \<and>
        tolerance \<le> snd (run_test try_candidate try_candidate_xtr f x (Xtr c' l'))) \<and>
    (\<forall>l' \<in> {0..l - 1}. 0 < snd (run_test try_candidate try_candidate_xtr f x (Xtr c l'))) \<and>
    snd (run_test try_candidate try_candidate_xtr f x (Xtr c l)) \<le> 0 \<longrightarrow>
      (\<exists>s'. locate_cell f x dimn try_candidate try_candidate_xtr tolerance s0 =
              Inr (encode c l (n_layers f), s') \<and>
         found_ref_coords s' = fst (run_test try_candidate try_candidate_xtr f x (Xtr c l)) \<and>
         found_ref_cell_dist_l1 s' = snd (run_test try_candidate try_candidate_xtr f x (Xtr c l)) \<and>
         tested s' = tested s0 @ map fst (xtr_candidates c (n_layers f)) @ map (Xtr c) [0..l]))"
proof (intro conjI impI)
  let ?test = "run_test try_candidate try_candidate_xtr f x"
  assume h: "candidates f dimn x = Inr (pre @ (a, cid) # post) \<and> (sidx2 f \<noteq> None \<or> extruded f = 0) \<and>
    (\<forall>(b, r) \<in> set pre. 0 < snd (?test b)) \<and> snd (?test a) \<le> 0"
  then have c: "candidates f dimn x = Inr (pre @ (a, cid) # post)"
    and v: "sidx2 f \<noteq> None \<or> extruded f = 0"
    and p: "\<forall>(b, r) \<in> set pre. 0 < snd (?test b)" and hit: "snd (?test a) \<le> 0"
    by simp_all
  from locate_cell_search_loop [OF c v] obtain b b'
    where run: "locate_cell f x dimn try_candidate try_candidate_xtr tolerance s0 =
      Inr (cell (search_loop tolerance ?test (pre @ (a, cid) # post) ((init_locals s0)\<lparr>ids_buffer := b\<rparr>)),
           (search_loop tolerance ?test (pre @ (a, cid) # post) ((init_locals s0)\<lparr>ids_buffer := b\<rparr>))\<lparr>ids_buffer := b'\<rparr>)"
    by blast
  from search_loop_first_hit [OF p hit, of tolerance cid post "(init_locals s0)\<lparr>ids_buffer := b\<rparr>"]
  show "\<exists>s'. locate_cell f x dimn try_candidate try_candidate_xtr tolerance s0 = Inr (cid, s') \<and>
         found_ref_coords s' = fst (?test a) \<and>
         found_ref_cell_dist_l1 s' = snd (?test a) \<and>
         tested s' = tested s0 @ map fst pre @ [a]"
    unfolding run by (simp add: init_locals_simps)
next
  let ?test = "run_test try_candidate try_candidate_xtr f x"
  assume h: "sidx2 f = None \<and> extruded f \<noteq> 0 \<and> 0 \<le> c \<and> c < n_cols f \<and> 0 \<le> l \<and> l < n_layers f \<and>
    (\<forall>c' \<in> {0..c - 1}. \<forall>l' \<in> {0..n_layers f - 1}.
        0 < snd (?test (Xtr c' l')) \<and> tolerance \<le> snd (?test (Xtr c' l'))) \<and>
    (\<forall>l' \<in> {0..l - 1}. 0 < snd (?test (Xtr c l'))) \<and>
    snd (?test (Xtr c l)) \<le> 0"
  then have none: "sidx2 f = None" and xtr: "extruded f \<noteq> 0" and c: "0 \<le> c" "c < n_cols f"
    and l: "0 \<le> l" "l < n_layers f"
    and far: "\<forall>c' \<in> {0..c - 1}. \<forall>l' \<in> {0..n_layers f - 1}.
        0 < snd (?test (Xtr c' l')) \<and> tolerance \<le> snd (?test (Xtr c' l'))"
    and before: "\<forall>l' \<in> {0..l - 1}. 0 < snd (?test (Xtr c l'))"
    and hit: "snd (?test (Xtr c l)) \<le> 0"
    by simp_all
  from locate_cell_columns_upto [OF none xtr c far, of dimn s0] obtain s rest
    where run: "locate_cell f x dimn try_candidate try_candidate_xtr tolerance s0 =
           Inr (cell (loop_columns tolerance ?test (n_layers f) (c # rest) s),
                loop_columns tolerance ?test (n_layers f) (c # rest) s)"
      and s: "cell s = - 1" "tested s = tested s0 @ map fst (xtr_candidates c (n_layers f))"
    by blast
  from loop_columns_hit_head [OF s(1) l before hit, of tolerance rest] s(2)
  show "\<exists>s'. locate_cell f x dimn try_candidate try_candidate_xtr tolerance s0 =
              Inr (encode c l (n_layers f), s') \<and>
         found_ref_coords s' = fst (?test (Xtr c l)) \<and>
         found_ref_cell_dist_l1 s' = snd (?test (Xtr c l)) \<and>
         tested s' = tested s0 @ map fst (xtr_candidates c (n_layers f)) @ map (Xtr c) [0..l]"
    unfolding run by simp
qed

text \<open>
  C1. The exhaustive layered search misses a first hit: with two columns of one layer,
  distances \<open>1/10\<close> and \<open>-1\<close> and tolerance \<open>1/5\<close>, column 0 is accepted under the tolerance,
  the guard of lines 144-147 ends the loop over the columns, and column 1, which
  contains the point, is never tested. The function returns cell 0 where the first
  candidate with a distance \<open>\<le> 0\<close> is cell 1.
\<close>

theorem first_hit_missed:
  "candidates (exhaustive_mesh 1 2 1) 2 [0, 0] = Inr [(Xtr 0 0, 0), (Xtr 1 0, 1)] \<and>
   snd (run_test (table_test (\<lambda>c. 1)) (table_test_xtr (\<lambda>c l. if c = 0 then 1 / 10 else - 1))
          (exhaustive_mesh 1 2 1) [0, 0] (Xtr 0 0)) = 1 / 10 \<and>
   snd (run_test (table_test (\<lambda>c. 1)) (table_test_xtr (\<lambda>c l. if c = 0 then 1 / 10 else - 1))
          (exhaustive_mesh 1 2 1) [0, 0] (Xtr 1 0)) = - 1 \<and>
   locate_cell (exhaustive_mesh 1 2 1) [0, 0] 2 (table_test (\<lambda>c. 1))
     (table_test_xtr (\<lambda>c l. if c = 0 then 1 / 10 else - 1)) (1 / 5) example_state =
   Inr (0, \<lparr>cell = 0, ref_cell_dist_l1 = 1 / 10,
            current_ref_cell_dist_l1 = 1 / 10, temp_ref_coords = [0, 0],
            found_ref_coords = [0, 0], found_ref_cell_dist_l1 = 1 / 10,
            ids_buffer = Unallocated, stderr = [], tested = [Xtr 0 0]\<rparr>)"
  by (simp add: candidates_def xtr_candidates_def locate_cell_def locate_cell_body_def
      exhaustive_mesh_def column_candidates_def encode_def int32_def upto.simps table_test_xtr_def
      init_locals_def try_cell_def accept_def example_state_def DBL_MAX_def Let_def)

text \<open>
  What the code does do, for a finite tolerance. In the two searches with an R-tree and
  in the exhaustive flat search, when all distances are positive and the smallest is
  under the tolerance, the first candidate of smallest distance is returned, with that
  distance, which is positive, and its reference coordinates. In the exhaustive layered
  search, when the columns before \<open>c\<close> hold only positive distances not under the
  tolerance and column \<open>c\<close> holds positive distances of which the smallest is under the
  tolerance, the first layer of smallest distance in column \<open>c\<close> is returned: the nearest
  cell of the first column with a cell under the tolerance.
\<close>

lemma locate_cell_nearest:
  "(candidates f dimn x = Inr cs \<and> (sidx2 f \<noteq> None \<or> extruded f = 0) \<and> cs \<noteq> [] \<and>
    (\<forall>(b, r) \<in> set cs. 0 < snd (run_test try_candidate try_candidate_xtr f x b)) \<and>
    tolerance \<le> DBL_MAX \<and>
    arg_min_list (\<lambda>p. snd (run_test try_candidate try_candidate_xtr f x (fst p))) cs = (a, cid) \<and>
    snd (run_test try_candidate try_candidate_xtr f x a) < tolerance \<longrightarrow>
      (\<exists>s'. locate_cell f x dimn try_candidate try_candidate_xtr tolerance s0 = Inr (cid, s') \<and>
         found_ref_coords s' = fst (run_test try_candidate try_candidate_xtr f x a) \<and>
         found_ref_cell_dist_l1 s' = snd (run_test try_candidate try_candidate_xtr f x a) \<and>
         0 < found_ref_cell_dist_l1 s' \<and>
         (\<forall>(b, r) \<in> set cs.
            found_ref_cell_dist_l1 s' \<le> snd (run_test try_candidate try_candidate_xtr f x b)))) \<and>
   (sidx2 f = None \<and> extruded f \<noteq> 0 \<and> 0 \<le> c \<and> c < n_cols f \<and> 0 < n_layers f \<and>
    tolerance \<le> DBL_MAX \<and>
    (\<forall>c' \<in> {0..c - 1}. \<forall>l' \<in> {0..n_layers f - 1}.
        0 < snd (run_test try_candidate try_candidate_xtr f x (Xtr c' l')) \<and>
        tolerance \<le> snd (run_test try_candidate try_candidate_xtr f x (Xtr c' l'))) \<and>
    (\<forall>l' \<in> {0..n_layers f - 1}. 0 < snd (run_test try_candidate try_candidate_xtr f x (Xtr c l'))) \<and>
    arg_min_list (\<lambda>l'. snd (run_test try_candidate try_candidate_xtr f x (Xtr c l')))
      [0..n_layers f - 1] = l \<and>
    snd (run_test try_candidate try_candidate_xtr f x (Xtr c l)) < tolerance \<longrightarrow>
      (\<exists>s'. locate_cell f x dimn try_candidate try_candidate_xtr tolerance s0 =
              Inr (encode c l (n_layers f), s') \<and>
         found_ref_coords s' = fst (run_test try_candidate try_candidate_xtr f x (Xtr c l)) \<and>
         found_ref_cell_dist_l1 s' = snd (run_test try_candidate try_candidate_xtr f x (Xtr c l)) \<and>
         0 < found_ref_cell_dist_l1 s' \<and>
         (\<forall>l' \<in> {0..n_layers f - 1}.
            found_ref_cell_dist_l1 s' \<le> snd (run_test try_candidate try_candidate_xtr f x (Xtr c l')))))"
proof (intro conjI impI)
  let ?test = "run_test try_candidate try_candidate_xtr f x"
  let ?d = "\<lambda>p. snd (?test (fst p))"
  assume h: "candidates f dimn x = Inr cs \<and> (sidx2 f \<noteq> None \<or> extruded f = 0) \<and> cs \<noteq> [] \<and>
    (\<forall>(b, r) \<in> set cs. 0 < snd (?test b)) \<and> tolerance \<le> DBL_MAX \<and>
    arg_min_list ?d cs = (a, cid) \<and> snd (?test a) < tolerance"
  then have c: "candidates f dimn x = Inr cs" and v: "sidx2 f \<noteq> None \<or> extruded f = 0"
    and ne: "cs \<noteq> []" and pos: "\<forall>(b, r) \<in> set cs. 0 < snd (?test b)"
    and fin: "tolerance \<le> DBL_MAX" and am: "arg_min_list ?d cs = (a, cid)"
    and near: "snd (?test a) < tolerance"
    by simp_all
  from locate_cell_search_loop [OF c v] obtain b b'
    where run: "locate_cell f x dimn try_candidate try_candidate_xtr tolerance s0 =
      Inr (cell (search_loop tolerance ?test cs ((init_locals s0)\<lparr>ids_buffer := b\<rparr>)),
           (search_loop tolerance ?test cs ((init_locals s0)\<lparr>ids_buffer := b\<rparr>))\<lparr>ids_buffer := b'\<rparr>)"
    by blast
  have best: "snd (?test a) < ref_cell_dist_l1 ((init_locals s0)\<lparr>ids_buffer := b\<rparr>)"
    using near fin by (simp add: init_locals_simps)
  have "(a, cid) \<in> set cs" using arg_min_list_in [OF ne, of ?d] am by simp
  with pos have apos: "0 < snd (?test a)" by fastforce
  have least: "\<forall>(b, r) \<in> set cs. snd (?test a) \<le> snd (?test b)"
  proof -
    have "?d (arg_min_list ?d cs) = Min (?d ` set cs)" by (rule f_arg_min_list_f [OF ne])
    then have "\<And>q. q \<in> set cs \<Longrightarrow> snd (?test a) \<le> ?d q" using am by simp
    then show ?thesis by fastforce
  qed
  from search_loop_nearest [OF ne pos am best near] apos least
  show "\<exists>s'. locate_cell f x dimn try_candidate try_candidate_xtr tolerance s0 = Inr (cid, s') \<and>
         found_ref_coords s' = fst (?test a) \<and>
         found_ref_cell_dist_l1 s' = snd (?test a) \<and>
         0 < found_ref_cell_dist_l1 s' \<and>
         (\<forall>(b, r) \<in> set cs. found_ref_cell_dist_l1 s' \<le> snd (?test b))"
    unfolding run by simp
next
  let ?test = "run_test try_candidate try_candidate_xtr f x"
  let ?d = "\<lambda>l'. snd (?test (Xtr c l'))"
  assume h: "sidx2 f = None \<and> extruded f \<noteq> 0 \<and> 0 \<le> c \<and> c < n_cols f \<and> 0 < n_layers f \<and>
    tolerance \<le> DBL_MAX \<and>
    (\<forall>c' \<in> {0..c - 1}. \<forall>l' \<in> {0..n_layers f - 1}.
        0 < snd (?test (Xtr c' l')) \<and> tolerance \<le> snd (?test (Xtr c' l'))) \<and>
    (\<forall>l' \<in> {0..n_layers f - 1}. 0 < snd (?test (Xtr c l'))) \<and>
    arg_min_list ?d [0..n_layers f - 1] = l \<and>
    snd (?test (Xtr c l)) < tolerance"
  then have none: "sidx2 f = None" and xtr: "extruded f \<noteq> 0" and c: "0 \<le> c" "c < n_cols f"
    and nl: "0 < n_layers f" and fin: "tolerance \<le> DBL_MAX"
    and far: "\<forall>c' \<in> {0..c - 1}. \<forall>l' \<in> {0..n_layers f - 1}.
        0 < snd (?test (Xtr c' l')) \<and> tolerance \<le> snd (?test (Xtr c' l'))"
    and pos: "\<forall>l' \<in> {0..n_layers f - 1}. 0 < snd (?test (Xtr c l'))"
    and am: "arg_min_list ?d [0..n_layers f - 1] = l"
    and near: "snd (?test (Xtr c l)) < tolerance"
    by simp_all
  have ne: "[0..n_layers f - 1] \<noteq> []" using nl by simp
  from locate_cell_columns_upto [OF none xtr c far, of dimn s0] fin obtain s rest
    where run: "locate_cell f x dimn try_candidate try_candidate_xtr tolerance s0 =
           Inr (cell (loop_columns tolerance ?test (n_layers f) (c # rest) s),
                loop_columns tolerance ?test (n_layers f) (c # rest) s)"
      and s: "cell s = - 1" "tolerance \<le> ref_cell_dist_l1 s"
    by blast
  have am': "arg_min_list (\<lambda>p. snd (?test (fst p))) (column_candidates (n_layers f) c) = (Xtr c l, l)"
    unfolding column_candidates_def arg_min_list_map [OF ne] using am by simp
  have best: "snd (?test (Xtr c l)) < ref_cell_dist_l1 s" using near s(2) by simp
  have "l \<in> set [0..n_layers f - 1]" using arg_min_list_in [OF ne, of ?d] am by simp
  with pos have lpos: "0 < snd (?test (Xtr c l))" by simp
  have least: "\<forall>l' \<in> {0..n_layers f - 1}. snd (?test (Xtr c l)) \<le> snd (?test (Xtr c l'))"
  proof -
    have "?d (arg_min_list ?d [0..n_layers f - 1]) = Min (?d ` set [0..n_layers f - 1])"
      by (rule f_arg_min_list_f [OF ne])
    then have "\<And>q. q \<in> set [0..n_layers f - 1] \<Longrightarrow> snd (?test (Xtr c l)) \<le> ?d q"
      using am by simp
    then show ?thesis by simp
  qed
  from loop_columns_nearest_head [OF s(1) nl pos am' best near, of rest] lpos least
  show "\<exists>s'. locate_cell f x dimn try_candidate try_candidate_xtr tolerance s0 =
              Inr (encode c l (n_layers f), s') \<and>
         found_ref_coords s' = fst (?test (Xtr c l)) \<and>
         found_ref_cell_dist_l1 s' = snd (?test (Xtr c l)) \<and>
         0 < found_ref_cell_dist_l1 s' \<and>
         (\<forall>l' \<in> {0..n_layers f - 1}. found_ref_cell_dist_l1 s' \<le> snd (?test (Xtr c l')))"
    unfolding run by simp
qed

text \<open>
  C2. The exhaustive layered search misses the nearest cell: with two columns of one
  layer, distances \<open>1/10\<close> and \<open>1/20\<close> and tolerance \<open>1/5\<close>, column 0 is accepted and the guard
  of lines 144-147 ends the loop over the columns; the nearest cell, in column 1, is
  never tested. The function returns cell 0 with distance \<open>1/10\<close> where the smallest
  distance is \<open>1/20\<close>, at cell 1.
\<close>

theorem nearest_missed:
  "candidates (exhaustive_mesh 1 2 1) 2 [0, 0] = Inr [(Xtr 0 0, 0), (Xtr 1 0, 1)] \<and>
   snd (run_test (table_test (\<lambda>c. 1)) (table_test_xtr (\<lambda>c l. if c = 0 then 1 / 10 else 1 / 20))
          (exhaustive_mesh 1 2 1) [0, 0] (Xtr 0 0)) = 1 / 10 \<and>
   snd (run_test (table_test (\<lambda>c. 1)) (table_test_xtr (\<lambda>c l. if c = 0 then 1 / 10 else 1 / 20))
          (exhaustive_mesh 1 2 1) [0, 0] (Xtr 1 0)) = 1 / 20 \<and>
   locate_cell (exhaustive_mesh 1 2 1) [0, 0] 2 (table_test (\<lambda>c. 1))
     (table_test_xtr (\<lambda>c l. if c = 0 then 1 / 10 else 1 / 20)) (1 / 5) example_state =
   Inr (0, \<lparr>cell = 0, ref_cell_dist_l1 = 1 / 10,
            current_ref_cell_dist_l1 = 1 / 10, temp_ref_coords = [0, 0],
            found_ref_coords = [0, 0], found_ref_cell_dist_l1 = 1 / 10,
            ids_buffer = Unallocated, stderr = [], tested = [Xtr 0 0]\<rparr>)"
  by (simp add: candidates_def xtr_candidates_def locate_cell_def locate_cell_body_def
      exhaustive_mesh_def column_candidates_def encode_def int32_def upto.simps table_test_xtr_def
      init_locals_def try_cell_def accept_def example_state_def DBL_MAX_def Let_def)

end
